theory Spec2Isabelle
  imports Complex_Main "HOL-Library.Multiset"
begin

section \<open>Common Python values and errors\<close>

text \<open>
  Knob values are Python objects: integers for integer knobs and (usually) strings such as
  "ON"/"OFF" for boolean knobs; a float as the value of a knob is outside this model.  Python
  floats, where the code computes with them (times, rewards, statistics), are exact real
  numbers here: no rounding error, no NaN, no infinity, no overflow.  The Normalizer is given
  twice: in exact arithmetic, which suffices to say what it rejects, and in double precision,
  which its round trip depends on.
\<close>

datatype pyval = IntV int | StrV string

datatype py_error =
    ValueError
  | NotImplementedError
  | TypeError
  | KeyError
  | IndexError
  | ZeroDivisionError
  | AttributeError
  | OverflowError
  | UnboundLocalError string
  | SystemExit int

text \<open>Python's \<open>round(x)\<close>: to the nearest integer, ties to the even neighbour.\<close>

definition py_round :: "real \<Rightarrow> int" where
  "py_round x =
     (let f = \<lfloor>x\<rfloor>; d = x - of_int f
      in if d < 1 / 2 then f
         else if 1 / 2 < d then f + 1
         else if even f then f else f + 1)"

text \<open>Python's \<open>round(x, n)\<close> on the exact idealisation of a float.\<close>

definition py_round_nd :: "real \<Rightarrow> nat \<Rightarrow> real" where
  "py_round_nd x n = of_int (py_round (x * 10 ^ n)) / 10 ^ n"

section \<open>Drivers/Normalizer.py\<close>

text \<open>
  An entry of the knob dictionary is \<open>name: [knob_type, [min_val, max_val, default_val]]\<close>.
  The dictionary keeps insertion order, so it is an association list; \<open>knob_names\<close> is
  \<open>list(knob_dict.keys())\<close>.
\<close>

type_synonym knob_spec = "string \<times> pyval \<times> pyval \<times> pyval"
type_synonym knob_dict = "(string \<times> knob_spec) list"
type_synonym config = "string \<rightharpoonup> pyval"

text \<open>
  \<open>frozen_values\<close> is a dictionary that grows while the tuner runs; it is an association
  list as well, and \<open>d[k] = v\<close> replaces the value of a key in place or appends the key.
\<close>

type_synonym frozen = "(string \<times> pyval) list"

fun dict_set :: "('k \<times> 'v) list \<Rightarrow> 'k \<Rightarrow> 'v \<Rightarrow> ('k \<times> 'v) list" where
  "dict_set [] k v = [(k, v)]"
| "dict_set ((k', v') # d) k v = (if k' = k then (k, v) # d else (k', v') # dict_set d k v)"

definition knob_names :: "knob_dict \<Rightarrow> string list" where
  "knob_names kd = map fst kd"

text \<open>The body of the \<open>for\<close> loop of \<open>denormalize\<close> for one knob.\<close>

fun denorm_value :: "knob_spec \<Rightarrow> real \<Rightarrow> py_error + pyval" where
  "denorm_value (knob_type, min_val, max_val, default_val) norm_val =
     (if knob_type = ''integer'' then
        (case (min_val, max_val) of
           (IntV lo, IntV hi) \<Rightarrow>
             (let real_value = py_round (of_int lo + norm_val * of_int (hi - lo));
                  real_value = (if hi \<le> real_value then hi else real_value);
                  real_value = (if real_value \<le> lo then lo else real_value)
              in Inr (IntV real_value))
         | _ \<Rightarrow> Inl TypeError)
      else if knob_type = ''boolean'' then
        Inr (if norm_val < 1 / 2 then min_val else max_val)
      else Inl NotImplementedError)"

fun denormalize_loop ::
  "knob_dict \<Rightarrow> (string \<times> real) list \<Rightarrow> config \<Rightarrow> py_error + config" where
  "denormalize_loop kd [] config_dict = Inr config_dict"
| "denormalize_loop kd ((knob, norm_val) # rest) config_dict =
     (case map_of kd knob of
        None \<Rightarrow> Inl KeyError
      | Some spec \<Rightarrow>
          (case denorm_value spec norm_val of
             Inl e \<Rightarrow> Inl e
           | Inr real_value \<Rightarrow> denormalize_loop kd rest (config_dict(knob \<mapsto> real_value))))"

definition denormalize :: "knob_dict \<Rightarrow> real list \<Rightarrow> py_error + config" where
  "denormalize kd normalized_values =
     (if length normalized_values \<noteq> length (knob_names kd) then Inl ValueError
      else denormalize_loop kd (zip (knob_names kd) normalized_values) Map.empty)"

text \<open>The body of the \<open>for\<close> loop of \<open>normalize\<close> for one knob that is present.\<close>

fun norm_value :: "knob_spec \<Rightarrow> pyval \<Rightarrow> py_error + real" where
  "norm_value (knob_type, min_val, max_val, default_val) real_value =
     (if knob_type = ''integer'' then
        (if max_val = min_val then Inl ValueError
         else (case (real_value, min_val, max_val) of
                 (IntV v, IntV lo, IntV hi) \<Rightarrow> Inr (of_int (v - lo) / of_int (hi - lo))
               | _ \<Rightarrow> Inl TypeError))
      else if knob_type = ''boolean'' then
        (if real_value = min_val then Inr 0
         else if real_value = max_val then Inr 1
         else Inl ValueError)
      else Inl NotImplementedError)"

fun normalize_loop :: "knob_dict \<Rightarrow> string list \<Rightarrow> config \<Rightarrow> py_error + real list" where
  "normalize_loop kd [] config = Inr []"
| "normalize_loop kd (knob # rest) config =
     (case config knob of
        None \<Rightarrow> Inl ValueError
      | Some real_value \<Rightarrow>
          (case map_of kd knob of
             None \<Rightarrow> Inl KeyError
           | Some spec \<Rightarrow>
               (case norm_value spec real_value of
                  Inl e \<Rightarrow> Inl e
                | Inr norm_val \<Rightarrow>
                    (case normalize_loop kd rest config of
                       Inl e \<Rightarrow> Inl e
                     | Inr normalized_values \<Rightarrow> Inr (norm_val # normalized_values)))))"

definition normalize :: "knob_dict \<Rightarrow> config \<Rightarrow> py_error + real list" where
  "normalize kd config = normalize_loop kd (knob_names kd) config"

text \<open>\<open>get_default_normalized_values\<close>: the defaults, normalized.\<close>

definition get_default_normalized_values :: "knob_dict \<Rightarrow> py_error + real list" where
  "get_default_normalized_values kd =
     normalize kd (map_option (\<lambda>(knob_type, min_val, max_val, default_val). default_val) \<circ> map_of kd)"

section \<open>The standard library's random source\<close>

text \<open>
  The pseudo-random generator is an input tape of raw draws.  \<open>random.sample(population, k)\<close>
  draws \<open>k\<close> positions without replacement (selection from a shrinking pool, as the library
  documents it) and raises \<open>ValueError\<close> when \<open>k\<close> exceeds the population.
\<close>

type_synonym rng = "nat list"

fun randbelow :: "rng \<Rightarrow> nat \<Rightarrow> nat \<times> rng" where
  "randbelow [] n = (0, [])"
| "randbelow (r # rs) n = (r mod n, rs)"

fun sample_pool :: "rng \<Rightarrow> 'a list \<Rightarrow> nat \<Rightarrow> 'a list \<times> rng" where
  "sample_pool g pool 0 = ([], g)"
| "sample_pool g pool (Suc k) =
     (case randbelow g (length pool) of
        (j, g') \<Rightarrow>
          (case sample_pool g' (butlast (pool[j := last pool])) k of
             (result, g'') \<Rightarrow> (pool ! j # result, g'')))"

definition random_sample :: "rng \<Rightarrow> 'a list \<Rightarrow> nat \<Rightarrow> (py_error + 'a list) \<times> rng" where
  "random_sample g population k =
     (if length population < k then (Inl ValueError, g)
      else (case sample_pool g population k of (result, g') \<Rightarrow> (Inr result, g')))"

section \<open>tuner/knob\_selection.py\<close>

subsection \<open>IncrementalSupportMask\<close>

record incremental_support_mask =
  n_features :: int
  step :: int
  selected :: int

definition incremental_support_mask_init :: "int \<Rightarrow> int \<Rightarrow> int \<Rightarrow> incremental_support_mask" where
  "incremental_support_mask_init n st initial =
     \<lparr>n_features = n, step = st, selected = initial - st\<rparr>"

definition incremental_support_mask_call ::
  "incremental_support_mask \<Rightarrow> bool list \<times> incremental_support_mask" where
  "incremental_support_mask_call self =
     (let sel = min (selected self + step self) (n_features self)
      in (map (\<lambda>i. int i < sel) [0..<nat (n_features self)], self\<lparr>selected := sel\<rparr>))"

subsection \<open>eliminate\_with\_scipy\_ttest\<close>

text \<open>
  \<open>np.median\<close> of a non-empty column, and the elimination loop.  Welch's test itself is the
  library's: \<open>ttest_ind\<close> is a parameter that returns the p-value, \<open>None\<close> standing for NaN
  (every comparison with NaN is false).
\<close>

definition np_median :: "real list \<Rightarrow> real" where
  "np_median vals =
     (let s = sort vals; n = length s
      in if odd n then s ! (n div 2) else (s ! (n div 2 - 1) + s ! (n div 2)) / 2)"

definition ttest_column ::
  "(real list \<Rightarrow> real list \<Rightarrow> real option) \<Rightarrow> real \<Rightarrow> real list \<Rightarrow> real list \<Rightarrow> bool" where
  "ttest_column ttest_ind alpha vals Y =
     (let med = np_median vals;
          Y_low = map snd (filter (\<lambda>(x, y). x \<le> med) (zip vals Y));
          Y_high = map snd (filter (\<lambda>(x, y). \<not> x \<le> med) (zip vals Y))
      in if length Y_low < 2 \<or> length Y_high < 2 then True
         else (case ttest_ind Y_low Y_high of None \<Rightarrow> False | Some p_value \<Rightarrow> p_value \<le> alpha))"

definition eliminate_with_scipy_ttest ::
  "(real list \<Rightarrow> real list \<Rightarrow> real option) \<Rightarrow> real list list \<Rightarrow> real list \<Rightarrow> real
     \<Rightarrow> py_error + bool list" where
  "eliminate_with_scipy_ttest ttest_ind X Y alpha =
     (case X of
        [] \<Rightarrow> Inl ValueError
      | row # _ \<Rightarrow>
          if list_ex (\<lambda>r. length r \<noteq> length row) X then Inl ValueError
          else if length row = 0 then Inr []
          else if length Y \<noteq> length X then Inl IndexError
          else Inr (map (\<lambda>k. ttest_column ttest_ind alpha (map (\<lambda>r. r ! k) X) Y)
                      [0..<length row]))"

subsection \<open>update\_tuned\_knobs\<close>

text \<open>The keyword arguments of \<open>update_tuned_knobs\<close>, with the source's defaults.\<close>

record knob_policy =
  is_random :: int
  is_incremental :: int
  is_SE :: int
  is_bandit :: int
  is_TS :: int
  is_LRT :: int
  is_pure_incremental :: int
  bandit_choice :: int

definition default_policy :: knob_policy where
  "default_policy =
     \<lparr>is_random = 0, is_incremental = 0, is_SE = 0, is_bandit = 0, is_TS = 0, is_LRT = 0,
      is_pure_incremental = 0, bandit_choice = 0\<rparr>"

definition count_true :: "bool list \<Rightarrow> int" where
  "count_true selection_mask = int (length (filter (\<lambda>b. b) selection_mask))"

text \<open>Lines 59 to 86: the size of the next tuned set, by policy.\<close>

definition element_to_tune :: "knob_policy \<Rightarrow> int \<Rightarrow> bool list \<Rightarrow> int" where
  "element_to_tune pol current_size selection_mask =
     (if is_incremental pol = 1 \<or> is_SE pol = 1 then count_true selection_mask
      else if is_bandit pol = 1 then count_true selection_mask + 5 * bandit_choice pol
      else if is_TS pol = 1 \<or> is_LRT pol = 1 then count_true selection_mask + 5 * bandit_choice pol
      else if is_pure_incremental pol \<noteq> 0 then count_true selection_mask + 5
      else if count_true selection_mask = int (length selection_mask)
           then \<lfloor>of_int current_size * (3 / 2 :: real)\<rfloor>
           else count_true selection_mask + 1)"

text \<open>
  Lines 90 to 99: the \<open>while\<close> loop of the random policy.  Each round shuffles the keys
  (\<open>random.sample(keys, len(keys))\<close>) and appends the first one not yet used.  It need not
  terminate, so not returning is the value \<open>None\<close>.
\<close>

partial_function (option) random_fill ::
  "string list \<Rightarrow> int \<Rightarrow> string list \<Rightarrow> string set \<Rightarrow> bool \<Rightarrow> rng \<Rightarrow> (string list \<times> bool) option"
  where
  "random_fill keys target new_list used updated g =
     (if int (length new_list) < target then
        (if card used = length keys then Some (new_list, updated)
         else (case sample_pool g keys (length keys) of
                 (shuffled, g') \<Rightarrow>
                   (case find (\<lambda>c. c \<notin> used) shuffled of
                      None \<Rightarrow> random_fill keys target new_list used updated g'
                    | Some c \<Rightarrow> random_fill keys target (new_list @ [c]) (insert c used) True g')))
      else Some (new_list, updated))"

text \<open>
  \<open>update_tuned_knobs\<close>.  \<open>selection_mask[i]\<close> is read for every index of the current list, so
  a mask shorter than the list raises \<open>IndexError\<close>.  The result is \<open>None\<close> when the random
  policy's loop does not return.
\<close>

definition update_tuned_knobs ::
  "rng \<Rightarrow> string list \<Rightarrow> knob_dict \<Rightarrow> bool list \<Rightarrow> frozen \<Rightarrow> knob_policy
     \<Rightarrow> (py_error + string list \<times> bool) option" where
  "update_tuned_knobs g current_tuned_list full_knob_dict selection_mask frozen_values pol =
     (let current = current_tuned_list;
          used = set current \<union> set (map fst frozen_values);
          keys = knob_names full_knob_dict;
          updated = (count_true selection_mask < int (length current));
          target = element_to_tune pol (int (length current)) selection_mask
      in if length selection_mask < length current then Some (Inl IndexError)
         else
           (let new_list = map fst (filter snd (zip current selection_mask))
            in if is_random pol \<noteq> 0 then
                 map_option Inr (random_fill keys target new_list used updated g)
               else
                 (let needed = target - int (length new_list)
                  in if 0 < needed then
                       (let available = filter (\<lambda>k. k \<notin> used) keys;
                            to_add = take (nat needed) available
                        in Some (Inr (new_list @ to_add, to_add \<noteq> [])))
                     else Some (Inr (new_list, updated)))))"

section \<open>The bandits\<close>

text \<open>\<open>xs[i] += d\<close> on a Python list, for an index that is not negative.\<close>

definition list_add_at :: "real list \<Rightarrow> nat \<Rightarrow> real \<Rightarrow> py_error + real list" where
  "list_add_at xs i d = (if i < length xs then Inr (xs[i := xs ! i + d]) else Inl IndexError)"

subsection \<open>tuner/TwoActionLRT.py\<close>

record two_action_lrt =
  success :: "real list"
  failure :: "real list"
  lrt_last_action :: "nat option"

definition two_action_lrt_init :: two_action_lrt where
  "two_action_lrt_init = \<lparr>success = [1, 1], failure = [1, 1], lrt_last_action = None\<rparr>"

definition lrt_success_rate :: "two_action_lrt \<Rightarrow> nat \<Rightarrow> py_error + real" where
  "lrt_success_rate self i =
     (if length (success self) \<le> i \<or> length (failure self) \<le> i then Inl IndexError
      else if success self ! i + failure self ! i = 0 then Inl ZeroDivisionError
      else Inr (success self ! i / (success self ! i + failure self ! i)))"

definition lrt_select :: "two_action_lrt \<Rightarrow> py_error + nat \<times> two_action_lrt" where
  "lrt_select self =
     (case lrt_success_rate self 0 of
        Inl e \<Rightarrow> Inl e
      | Inr r0 \<Rightarrow>
          (case lrt_success_rate self 1 of
             Inl e \<Rightarrow> Inl e
           | Inr r1 \<Rightarrow>
               if r0 + 1 / 10 ^ 8 = 0 then Inl ZeroDivisionError
               else if (r1 + 1 / 10 ^ 8) / (r0 + 1 / 10 ^ 8) \<le> 0 then Inl ValueError
               else
                 (let likelihood_ratio = ln ((r1 + 1 / 10 ^ 8) / (r0 + 1 / 10 ^ 8));
                      action = (if 0 < likelihood_ratio then 1 else 0)
                  in Inr (action, self\<lparr>lrt_last_action := Some action\<rparr>))))"

definition lrt_update :: "two_action_lrt \<Rightarrow> real \<Rightarrow> py_error + two_action_lrt" where
  "lrt_update self reward =
     (case lrt_last_action self of
        None \<Rightarrow> Inr self
      | Some action \<Rightarrow>
          (case list_add_at (success self) action reward of
             Inl e \<Rightarrow> Inl e
           | Inr s \<Rightarrow>
               (case list_add_at (failure self) action (1 - reward) of
                  Inl e \<Rightarrow> Inl e
                | Inr f \<Rightarrow> Inr \<lparr>success = s, failure = f, lrt_last_action = None\<rparr>)))"

text \<open>\<open>TwoActionLRT.reward\<close>; \<open>threshold\<close> defaults to 0.001.\<close>

definition lrt_reward :: "real \<Rightarrow> real \<Rightarrow> int \<Rightarrow> real \<Rightarrow> py_error + real" where
  "lrt_reward cur_perf best_perf n_calls threshold =
     (let improvement_ratio = (cur_perf - best_perf) / (if best_perf \<noteq> 0 then best_perf else 1)
      in if n_calls = 0 then Inl ZeroDivisionError
         else
           (let improvement_per_step = improvement_ratio / of_int n_calls
            in Inr (if threshold < improvement_per_step then 1 else 0)))"

subsection \<open>tuner/TwoActionTS.py\<close>

text \<open>
  One call of \<open>select\<close> consumes these draws: \<open>random.random()\<close>, the value of
  \<open>random.randrange(2)\<close> or \<open>random.choice([0, 1])\<close>, and the two \<open>beta.rvs\<close> samples.
\<close>

record select_draws =
  uniform_draw :: real
  random_action :: nat
  theta0 :: real
  theta1 :: real

record two_action_ts =
  ts_epsilon :: real
  ts_alpha :: "real list"
  ts_beta :: "real list"
  ts_last_action :: "nat option"

definition two_action_ts_init :: "real \<Rightarrow> two_action_ts" where
  "two_action_ts_init eps =
     \<lparr>ts_epsilon = eps, ts_alpha = [1, 1], ts_beta = [1, 1], ts_last_action = None\<rparr>"

definition ts_select :: "select_draws \<Rightarrow> two_action_ts \<Rightarrow> py_error + nat \<times> two_action_ts" where
  "ts_select d self =
     (if uniform_draw d < ts_epsilon self then
        Inr (random_action d, self\<lparr>ts_last_action := Some (random_action d)\<rparr>)
      else if length (ts_alpha self) < 2 \<or> length (ts_beta self) < 2 then Inl IndexError
      else
        (let action = (if theta0 d < theta1 d then 1 else 0)
         in Inr (action, self\<lparr>ts_last_action := Some action\<rparr>)))"

definition ts_update :: "two_action_ts \<Rightarrow> real \<Rightarrow> py_error + two_action_ts" where
  "ts_update self reward =
     (case ts_last_action self of
        None \<Rightarrow> Inr self
      | Some a \<Rightarrow>
          (case list_add_at (ts_alpha self) a reward of
             Inl e \<Rightarrow> Inl e
           | Inr al \<Rightarrow>
               (case list_add_at (ts_beta self) a (1 - reward) of
                  Inl e \<Rightarrow> Inl e
                | Inr be \<Rightarrow> Inr (self\<lparr>ts_alpha := al, ts_beta := be, ts_last_action := None\<rparr>))))"

text \<open>The sigmoidal reward shared by \<open>TwoActionTS\<close> and \<open>ContextualTS\<close>; \<open>scale\<close> defaults to 500.\<close>

definition ts_reward :: "real \<Rightarrow> real \<Rightarrow> int \<Rightarrow> real \<Rightarrow> py_error + real" where
  "ts_reward cur_perf best_perf n_calls scale =
     (let improvement_ratio = (if best_perf = 0 then 1 else (cur_perf - best_perf) / best_perf)
      in if n_calls = 0 then Inl ZeroDivisionError
         else
           (let improvement_per_step = improvement_ratio / of_int n_calls
            in Inr (1 / (1 + exp (- scale * (improvement_per_step - 1 / 1000))))))"

subsection \<open>tuner/contextualTS.py\<close>

record contextual_ts =
  cts_epsilon :: real
  cts_alpha :: "int \<rightharpoonup> real list"
  cts_beta :: "int \<rightharpoonup> real list"
  cts_last_context :: "int option"
  cts_last_action :: "nat option"

definition contextual_ts_init :: "real \<Rightarrow> contextual_ts" where
  "contextual_ts_init eps =
     \<lparr>cts_epsilon = eps, cts_alpha = [0 \<mapsto> [1, 1], 1 \<mapsto> [1, 1]],
      cts_beta = [0 \<mapsto> [1, 1], 1 \<mapsto> [1, 1]],
      cts_last_context = None, cts_last_action = None\<rparr>"

definition cts_select :: "select_draws \<Rightarrow> contextual_ts \<Rightarrow> int \<Rightarrow> py_error + nat \<times> contextual_ts" where
  "cts_select d self context =
     (if uniform_draw d < cts_epsilon self then
        Inr (random_action d,
             self\<lparr>cts_last_context := Some context, cts_last_action := Some (random_action d)\<rparr>)
      else
        (case (cts_alpha self context, cts_beta self context) of
           (Some al, Some be) \<Rightarrow>
             if length al < 2 \<or> length be < 2 then Inl IndexError
             else
               (let action = (if theta1 d \<le> theta0 d then 0 else 1)
                in Inr (action,
                        self\<lparr>cts_last_context := Some context, cts_last_action := Some action\<rparr>))
         | _ \<Rightarrow> Inl KeyError))"

definition cts_update :: "contextual_ts \<Rightarrow> real \<Rightarrow> py_error + contextual_ts" where
  "cts_update self reward =
     (case (cts_last_context self, cts_last_action self) of
        (Some c, Some a) \<Rightarrow>
          (case cts_alpha self c of
             None \<Rightarrow> Inl KeyError
           | Some al \<Rightarrow>
               (case list_add_at al a reward of
                  Inl e \<Rightarrow> Inl e
                | Inr al' \<Rightarrow>
                    (case cts_beta self c of
                       None \<Rightarrow> Inl KeyError
                     | Some be \<Rightarrow>
                         (case list_add_at be a (1 - reward) of
                            Inl e \<Rightarrow> Inl e
                          | Inr be' \<Rightarrow>
                              Inr (self\<lparr>cts_alpha := (cts_alpha self)(c \<mapsto> al'),
                                        cts_beta := (cts_beta self)(c \<mapsto> be'),
                                        cts_last_context := None,
                                        cts_last_action := None\<rparr>)))))
      | _ \<Rightarrow> Inr self)"

section \<open>tuner/main.py: decide\_calls\<close>

text \<open>
  The policy flags travel as the 9-tuple
  \<open>(is_basic, is_low, is_SE, is_incremental, is_bandit, is_TS, is_LRT, is_super_low,
  is_pure_incremental)\<close>; a flag is set when it is not zero.  \<open>sys.exit(1)\<close> is the error
  \<open>SystemExit 1\<close>.
\<close>

type_synonym flags = "int \<times> int \<times> int \<times> int \<times> int \<times> int \<times> int \<times> int \<times> int"

definition decide_calls :: "'x option \<Rightarrow> int \<Rightarrow> int \<Rightarrow> flags \<Rightarrow> int \<Rightarrow> py_error + int \<times> int" where
  "decide_calls x0 updated_knobs_num len_knobs flags remaining_iters =
     (case flags of
        (basic, low, se, incremental, bandit, ts, lrt, super_low, pure_incremental) \<Rightarrow>
          (let initial_pts = (case x0 of None \<Rightarrow> 10 | Some _ \<Rightarrow> (0 :: int));
               n_calls =
                 (case x0 of
                    None \<Rightarrow>
                      (let n = 10 * len_knobs;
                           n = (if super_low \<noteq> 0 then 5 * len_knobs else n)
                       in if se \<noteq> 0 then 100 else n)
                  | Some _ \<Rightarrow>
                      (let n =
                         (if updated_knobs_num = 0 then 10
                          else
                            (let n = 10 * len_knobs;
                                 n = (if low \<noteq> 0 then updated_knobs_num * 10 else n)
                             in if super_low \<noteq> 0 then updated_knobs_num * 5 else n))
                       in if se \<noteq> 0 then remaining_iters - 100 else n));
               n_calls = (if basic \<noteq> 0 then remaining_iters else n_calls)
           in if 2 < basic + incremental + se + bandit then Inl (SystemExit 1)
              else
                (let n_calls = (if incremental \<noteq> 0 then 25 else n_calls)
                 in Inr (initial_pts, min n_calls remaining_iters))))"

section \<open>Drivers/MySQLDriver.py: execute\_olap\<close>

subsection \<open>Splitting the script into statement units\<close>

text \<open>Python's \<open>str.split\<close>, \<open>strip\<close>, \<open>lower\<close>, \<open>startswith\<close> and \<open>join\<close>, on ASCII text.\<close>

fun py_split :: "char \<Rightarrow> string \<Rightarrow> string list" where
  "py_split sep [] = [[]]"
| "py_split sep (c # cs) =
     (if c = sep then [] # py_split sep cs
      else (case py_split sep cs of [] \<Rightarrow> [[c]] | p # ps \<Rightarrow> (c # p) # ps))"

definition py_isspace :: "char \<Rightarrow> bool" where
  "py_isspace c = (let n = (of_char c :: nat) in (9 \<le> n \<and> n \<le> 13) \<or> (28 \<le> n \<and> n \<le> 32))"

definition py_strip :: "string \<Rightarrow> string" where
  "py_strip s = rev (dropWhile py_isspace (rev (dropWhile py_isspace s)))"

definition py_lower :: "string \<Rightarrow> string" where
  "py_lower s =
     map (\<lambda>c. let n = (of_char c :: nat) in if 65 \<le> n \<and> n \<le> 90 then char_of (n + 32) else c) s"

definition startswith :: "string \<Rightarrow> string \<Rightarrow> bool" where
  "startswith s p = (take (length p) s = p)"

fun py_join :: "string \<Rightarrow> string list \<Rightarrow> string" where
  "py_join sep [] = []"
| "py_join sep [x] = x"
| "py_join sep (x # y # ys) = x @ sep @ py_join sep (y # ys)"

definition script_parts :: "string \<Rightarrow> string list" where
  "script_parts text = filter (\<lambda>p. p \<noteq> []) (map py_strip (py_split CHR '';'' text))"

text \<open>The grouping loop: a \<open>CREATE VIEW ... DROP VIEW\<close> span is one unit.\<close>

fun group_parts :: "string list \<Rightarrow> string list \<Rightarrow> string list \<Rightarrow> bool \<Rightarrow> string list" where
  "group_parts [] queries buffer in_view = queries"
| "group_parts (part # rest) queries buffer in_view =
     (let low = py_lower part
      in if startswith low ''create view'' then group_parts rest queries [part] True
         else if in_view then
           (if startswith low ''drop view''
            then group_parts rest (queries @ [py_join ''; '' (buffer @ [part]) @ '';'']) [] False
            else group_parts rest queries (buffer @ [part]) in_view)
         else group_parts rest (queries @ [part @ '';'']) buffer in_view)"

definition parse_queries :: "string \<Rightarrow> string list" where
  "parse_queries text = group_parts (script_parts text) [] [] False"

subsection \<open>The driver's state and its surroundings\<close>

text \<open>
  \<open>attrs\<close> is \<open>None\<close> until the first call creates the attributes \<open>best_total_time\<close> and
  \<open>best_olap_times\<close>.  The database and the clock are inputs: \<open>timer i\<close> is the raw elapsed
  time of the \<open>i\<close>-th statement this call executes, \<open>wall\<close> the raw elapsed time of the
  full run, \<open>csv_exists\<close> whether the sample log already exists.  The connection and the
  statements are taken to succeed.
\<close>

record olap_attrs =
  best_total_time :: "real option"
  best_olap_times :: "string \<rightharpoonup> real"

record olap_driver =
  budget_allocator :: int
  attrs :: "olap_attrs option"

record olap_env =
  timer :: "nat \<Rightarrow> real"
  wall :: real
  csv_exists :: bool

datatype csv_row = Header | Row string real

record olap_result =
  returned :: real
  driver_after :: olap_driver
  executed_sample :: "string list"
  executed_full :: "string list"
  csv_rows :: "csv_row list"

text \<open>\<open>{q: self._execute_single_query(cursor, q) for q in qs}\<close>, the first statement being the
  \<open>start\<close>-th of the call, and \<open>sum(d.values())\<close> of the dictionary built from \<open>qs\<close>.\<close>

definition query_times :: "olap_env \<Rightarrow> nat \<Rightarrow> string list \<Rightarrow> (string \<rightharpoonup> real)" where
  "query_times env start qs =
     map_of (rev (zip qs (map (\<lambda>i. py_round_nd (timer env i) 4) [start..<start + length qs])))"

definition dict_values_sum :: "(string \<rightharpoonup> real) \<Rightarrow> string list \<Rightarrow> real" where
  "dict_values_sum d qs = sum_list (map (\<lambda>q. case d q of None \<Rightarrow> 0 | Some t \<Rightarrow> t) (remdups qs))"

definition best_time_sum :: "(string \<rightharpoonup> real) \<Rightarrow> string list \<Rightarrow> real" where
  "best_time_sum best qs = sum_list (map (\<lambda>q. case best q of None \<Rightarrow> 0 | Some t \<Rightarrow> t) qs)"

text \<open>Lines 310 to 330: the number of sampled units, the sample's total and the estimate.\<close>

definition sample_count :: "nat \<Rightarrow> int \<Rightarrow> int" where
  "sample_count n pct = max 1 ((int n * pct) div 100)"

definition sample_total_of :: "olap_env \<Rightarrow> string list \<Rightarrow> real" where
  "sample_total_of env sampled = py_round_nd (dict_values_sum (query_times env 0 sampled) sampled) 2"

definition estimate :: "olap_attrs \<Rightarrow> string list \<Rightarrow> string list \<Rightarrow> real \<Rightarrow> real" where
  "estimate a queries sampled sample_total =
     (let total_best = best_time_sum (best_olap_times a) queries;
          sampled_best = best_time_sum (best_olap_times a) sampled;
          ratio = (if sampled_best \<noteq> 0 then sample_total / sampled_best else 1)
      in py_round_nd (total_best * ratio) 2)"

text \<open>Lines 335 to 354: the full run and the update of the baseline.\<close>

definition full_run ::
  "olap_env \<Rightarrow> olap_driver \<Rightarrow> olap_attrs \<Rightarrow> string list \<Rightarrow> string list \<Rightarrow> real \<Rightarrow> bool
     \<Rightarrow> csv_row list \<Rightarrow> olap_result" where
  "full_run env self a queries sampled sample_total logging rows =
     (let full_times = query_times env (length sampled) queries;
          full_total = py_round_nd (wall env) 2;
          improved = (case best_total_time a of None \<Rightarrow> True | Some b \<Rightarrow> full_total < b)
      in \<lparr>returned = full_total,
          driver_after =
            self\<lparr>attrs := Some (if improved
                                then \<lparr>best_total_time = Some full_total, best_olap_times = full_times\<rparr>
                                else a)\<rparr>,
          executed_sample = sampled,
          executed_full = queries,
          csv_rows =
            (if improved \<and> logging
             then rows @ [Row ''full'' (py_round_nd (sample_total + full_total) 2)]
             else rows)\<rparr>)"

definition execute_olap ::
  "olap_env \<Rightarrow> rng \<Rightarrow> olap_driver \<Rightarrow> string \<Rightarrow> string option \<Rightarrow> py_error + olap_result" where
  "execute_olap env g self sql_text intermediate_csv =
     (let queries = parse_queries sql_text
      in if queries = [] then
           Inr \<lparr>returned = 0, driver_after = self, executed_sample = [], executed_full = [],
                csv_rows = []\<rparr>
         else
           (let a = (case attrs self of
                       None \<Rightarrow> \<lparr>best_total_time = None, best_olap_times = Map.empty\<rparr>
                     | Some a \<Rightarrow> a);
                pct = max 0 (min 100 (budget_allocator self))
            in if 0 < pct \<and> pct < 100 then
                 (case fst (random_sample g queries (nat (sample_count (length queries) pct))) of
                    Inl e \<Rightarrow> Inl e
                  | Inr sampled \<Rightarrow>
                      (let sample_total = sample_total_of env sampled;
                           logging = (case intermediate_csv of None \<Rightarrow> False | Some f \<Rightarrow> f \<noteq> []);
                           rows = (if logging
                                   then (if csv_exists env then [] else [Header])
                                          @ [Row ''sample'' sample_total]
                                   else []);
                           est = estimate a queries sampled sample_total
                       in case best_total_time a of
                            None \<Rightarrow> Inr (full_run env self a queries sampled sample_total logging rows)
                          | Some b \<Rightarrow>
                              if b \<le> est then
                                Inr \<lparr>returned = est, driver_after = self\<lparr>attrs := Some a\<rparr>,
                                     executed_sample = sampled, executed_full = [],
                                     csv_rows = rows\<rparr>
                              else Inr (full_run env self a queries sampled sample_total logging rows)))
               else Inr (full_run env self a queries [] 0 False [])))"

section \<open>tuner/main.py: feature\_selection\_cycle\<close>

subsection \<open>The bandit object and its methods\<close>

datatype bandit =
    ContextualTS contextual_ts
  | TwoActionTS two_action_ts
  | TwoActionLRT two_action_lrt

text \<open>
  \<open>bandit.reward(cur_perf, best_perf, n_calls)\<close>, \<open>bandit.update(r)\<close>, \<open>bandit.select(context)\<close>
  and \<open>bandit.select()\<close>.  A method of \<open>None\<close> is an \<open>AttributeError\<close>; \<open>select\<close> with the
  wrong number of arguments is a \<open>TypeError\<close>.
\<close>

definition bandit_reward :: "bandit option \<Rightarrow> real \<Rightarrow> real \<Rightarrow> int \<Rightarrow> py_error + real" where
  "bandit_reward b cur_perf best_perf n_calls =
     (case b of
        None \<Rightarrow> Inl AttributeError
      | Some (ContextualTS _) \<Rightarrow> ts_reward cur_perf best_perf n_calls 500
      | Some (TwoActionTS _) \<Rightarrow> ts_reward cur_perf best_perf n_calls 500
      | Some (TwoActionLRT _) \<Rightarrow> lrt_reward cur_perf best_perf n_calls (1 / 1000))"

definition bandit_update :: "bandit option \<Rightarrow> real \<Rightarrow> py_error + bandit option" where
  "bandit_update b reward =
     (case b of
        None \<Rightarrow> Inl AttributeError
      | Some (ContextualTS c) \<Rightarrow> map_sum id (\<lambda>c'. Some (ContextualTS c')) (cts_update c reward)
      | Some (TwoActionTS t) \<Rightarrow> map_sum id (\<lambda>t'. Some (TwoActionTS t')) (ts_update t reward)
      | Some (TwoActionLRT l) \<Rightarrow> map_sum id (\<lambda>l'. Some (TwoActionLRT l')) (lrt_update l reward))"

definition bandit_select_context ::
  "select_draws \<Rightarrow> bandit option \<Rightarrow> int \<Rightarrow> py_error + int \<times> bandit option" where
  "bandit_select_context d b context =
     (case b of
        None \<Rightarrow> Inl AttributeError
      | Some (ContextualTS c) \<Rightarrow>
          map_sum id (\<lambda>(a, c'). (int a, Some (ContextualTS c'))) (cts_select d c context)
      | Some _ \<Rightarrow> Inl TypeError)"

definition bandit_select :: "select_draws \<Rightarrow> bandit option \<Rightarrow> py_error + int \<times> bandit option" where
  "bandit_select d b =
     (case b of
        None \<Rightarrow> Inl AttributeError
      | Some (ContextualTS _) \<Rightarrow> Inl TypeError
      | Some (TwoActionTS t) \<Rightarrow> map_sum id (\<lambda>(a, t'). (int a, Some (TwoActionTS t'))) (ts_select d t)
      | Some (TwoActionLRT l) \<Rightarrow> map_sum id (\<lambda>(a, l'). (int a, Some (TwoActionLRT l'))) (lrt_select l))"

subsection \<open>Slices, maxima and the reward attribution\<close>

text \<open>\<open>xs[i:]\<close> and \<open>xs[:j]\<close> with Python's negative indices, and \<open>max\<close> of a list.\<close>

definition slice_from :: "'a list \<Rightarrow> int \<Rightarrow> 'a list" where
  "slice_from xs i = (if 0 \<le> i then drop (nat i) xs else drop (nat (int (length xs) + i)) xs)"

definition slice_to :: "'a list \<Rightarrow> int \<Rightarrow> 'a list" where
  "slice_to xs j = (if 0 \<le> j then take (nat j) xs else take (nat (int (length xs) + j)) xs)"

definition py_max :: "real list \<Rightarrow> py_error + real" where
  "py_max xs = (case xs of [] \<Rightarrow> Inl ValueError | x # rest \<Rightarrow> Inr (fold max rest x))"

text \<open>Lines 231 to 240 and 260 to 266: \<open>bandit.update(bandit.reward(cur_perf, best_perf, n_calls))\<close>.\<close>

definition attribute_reward ::
  "real list \<Rightarrow> bandit option \<Rightarrow> int option \<Rightarrow> py_error + bandit option" where
  "attribute_reward perf_list b n_calls =
     (case n_calls of
        None \<Rightarrow> Inl TypeError
      | Some n \<Rightarrow>
          (case py_max (slice_from perf_list (- n)) of
             Inl e \<Rightarrow> Inl e
           | Inr cur_perf \<Rightarrow>
               (case (case slice_to perf_list (int (length perf_list) - n) of
                        [] \<Rightarrow> Inr 0
                      | earlier \<Rightarrow> py_max earlier) of
                  Inl e \<Rightarrow> Inl e
                | Inr best_perf \<Rightarrow>
                    (case bandit_reward b cur_perf best_perf n of
                       Inl e \<Rightarrow> Inl e
                     | Inr r \<Rightarrow> bandit_update b r))))"

subsection \<open>The surroundings of one cycle\<close>

text \<open>
  The libraries and the files are inputs.  \<open>rfecv_support m n X y\<close> is the mask
  \<open>rfecv.support_.tolist()\<close> after fitting with \<open>min_features_to_select = m\<close> and \<open>n\<close>
  estimators (or the error the fit raises); \<open>ttest_ind\<close> is Welch's test; \<open>load_y_data\<close> and
  \<open>load_intermediate_data\<close> are what the two loaders read from the intermediate file;
  \<open>draws\<close> and \<open>shuffle_rng\<close> feed the bandit and the random policy.
\<close>

record cycle_env =
  rfecv_support :: "int \<Rightarrow> int \<Rightarrow> real list list \<Rightarrow> real list \<Rightarrow> py_error + bool list"
  ttest_ind :: "real list \<Rightarrow> real list \<Rightarrow> real option"
  load_y_data :: "real list"
  load_intermediate_data :: "string list \<Rightarrow> real list list \<times> real list"
  draws :: select_draws
  shuffle_rng :: rng

text \<open>
  What the \<open>if\<close>/\<open>elif\<close> chain of lines 194 to 288 leaves behind: the mask, \<open>bandit_choice\<close>,
  the local variable \<open>min_features_to_select\<close> (\<open>None\<close> while it is unbound), the bandit and
  the selector.
\<close>

record selection =
  sel_mask :: "bool list"
  sel_choice :: int
  min_features_to_select :: "int option"
  sel_bandit :: "bandit option"
  sel_selector :: "incremental_support_mask option"

definition select_features ::
  "cycle_env \<Rightarrow> real list list \<Rightarrow> real list \<Rightarrow> string list \<Rightarrow> flags
     \<Rightarrow> incremental_support_mask option \<Rightarrow> bandit option \<Rightarrow> int option
     \<Rightarrow> py_error + selection" where
  "select_features env X_all y_all current_knobs flags selector b n_calls =
     (case flags of
        (basic, low, se, incremental, bandit_flag, ts, lrt, super_low, pure_incremental) \<Rightarrow>
          (let n_estimators = 100 + 10 * int (length current_knobs)
           in if se = 0 \<and> incremental = 0 \<and> bandit_flag = 0 \<and> ts = 0 \<and> lrt = 0
                 \<and> pure_incremental = 0 then
                (case rfecv_support env 1 n_estimators X_all y_all of
                   Inl e \<Rightarrow> Inl e
                 | Inr m \<Rightarrow>
                     Inr \<lparr>sel_mask = m, sel_choice = - 1, min_features_to_select = None,
                          sel_bandit = b, sel_selector = selector\<rparr>)
              else if incremental \<noteq> 0 then
                (case selector of
                   None \<Rightarrow> Inl TypeError
                 | Some sel \<Rightarrow>
                     (case incremental_support_mask_call sel of
                        (m, sel') \<Rightarrow>
                          Inr \<lparr>sel_mask = m, sel_choice = - 1, min_features_to_select = None,
                               sel_bandit = b, sel_selector = Some sel'\<rparr>))
              else if se \<noteq> 0 then
                (case eliminate_with_scipy_ttest (ttest_ind env) X_all y_all (5 / 100) of
                   Inl e \<Rightarrow> Inl e
                 | Inr m \<Rightarrow>
                     Inr \<lparr>sel_mask = m, sel_choice = - 1, min_features_to_select = None,
                          sel_bandit = b, sel_selector = selector\<rparr>)
              else if bandit_flag \<noteq> 0 then
                (case rfecv_support env 1 n_estimators X_all y_all of
                   Inl e \<Rightarrow> Inl e
                 | Inr m \<Rightarrow>
                     (let context = (if list_all (\<lambda>x. x) m then 1 else 0)
                      in case attribute_reward (load_y_data env) b n_calls of
                           Inl e \<Rightarrow> Inl e
                         | Inr b' \<Rightarrow>
                             (case bandit_select_context (draws env) b' context of
                                Inl e \<Rightarrow> Inl e
                              | Inr (c, b'') \<Rightarrow>
                                  Inr \<lparr>sel_mask = m, sel_choice = c, min_features_to_select = None,
                                       sel_bandit = b'', sel_selector = selector\<rparr>)))
              else if ts \<noteq> 0 \<or> lrt \<noteq> 0 then
                (let mfs = (if super_low \<noteq> 0 then 10 else 1)
                 in case rfecv_support env mfs n_estimators X_all y_all of
                      Inl e \<Rightarrow> Inl e
                    | Inr m \<Rightarrow>
                        (case attribute_reward (load_y_data env) b n_calls of
                           Inl e \<Rightarrow> Inl e
                         | Inr b' \<Rightarrow>
                             (case bandit_select (draws env) b' of
                                Inl e \<Rightarrow> Inl e
                              | Inr (c, b'') \<Rightarrow>
                                  Inr \<lparr>sel_mask = m, sel_choice = c, min_features_to_select = Some mfs,
                                       sel_bandit = b'', sel_selector = selector\<rparr>)))
              else if pure_incremental \<noteq> 0 then
                (let mfs = (if super_low \<noteq> 0 then 10 else 1)
                 in case rfecv_support env mfs n_estimators X_all y_all of
                      Inl e \<Rightarrow> Inl e
                    | Inr m \<Rightarrow>
                        Inr \<lparr>sel_mask = m, sel_choice = 0, min_features_to_select = Some mfs,
                             sel_bandit = b, sel_selector = selector\<rparr>)
              else Inl (SystemExit 1)))"

subsection \<open>The tail of the cycle: freezing dropped knobs\<close>

text \<open>\<open>{k: full_knob_dict[k] for k in knobs}\<close>: a missing key raises, a repeated one keeps its
  first position.\<close>

definition restrict_dict :: "knob_dict \<Rightarrow> string list \<Rightarrow> py_error + knob_dict" where
  "restrict_dict full_knob_dict knobs =
     (if list_ex (\<lambda>k. map_of full_knob_dict k = None) knobs then Inl KeyError
      else Inr (map (\<lambda>k. (k, the (map_of full_knob_dict k))) (rev (remdups (rev knobs)))))"

text \<open>\<open>np.argmin\<close>: the first index of the least element.\<close>

definition np_argmin :: "real list \<Rightarrow> py_error + nat" where
  "np_argmin ys =
     (case ys of
        [] \<Rightarrow> Inl ValueError
      | y # rest \<Rightarrow> Inr (length (takeWhile (\<lambda>v. v \<noteq> fold min rest y) ys)))"

text \<open>\<open>utils.get_combined_config\<close>: tuned value, else frozen value, else default.\<close>

definition get_combined_config ::
  "knob_dict \<Rightarrow> knob_dict \<Rightarrow> frozen \<Rightarrow> real list \<Rightarrow> py_error + config" where
  "get_combined_config normalizer full_knob_dict frozen_values best_norm =
     (case denormalize normalizer best_norm of
        Inl e \<Rightarrow> Inl e
      | Inr tuned_config \<Rightarrow>
          Inr (\<lambda>knob.
                 case map_of full_knob_dict knob of
                   None \<Rightarrow> None
                 | Some (knob_type, min_val, max_val, default_val) \<Rightarrow>
                     (case tuned_config knob of
                        Some v \<Rightarrow> Some v
                      | None \<Rightarrow>
                          (case map_of frozen_values knob of
                             Some v \<Rightarrow> Some v
                           | None \<Rightarrow> Some default_val))))"

fun freeze_dropped :: "string list \<Rightarrow> string list \<Rightarrow> config \<Rightarrow> frozen \<Rightarrow> py_error + frozen" where
  "freeze_dropped [] new_knobs best_cfg frozen_values = Inr frozen_values"
| "freeze_dropped (k # ks) new_knobs best_cfg frozen_values =
     (if k \<in> set new_knobs then freeze_dropped ks new_knobs best_cfg frozen_values
      else (case best_cfg k of
              None \<Rightarrow> Inl KeyError
            | Some v \<Rightarrow> freeze_dropped ks new_knobs best_cfg (dict_set frozen_values k v)))"

record cycle_result =
  res_knobs :: "string list"
  res_updated_num :: int
  res_x0 :: "real list list"
  res_y0 :: "real list"
  res_frozen :: frozen
  res_bandit :: "bandit option"
  res_selector :: "incremental_support_mask option"

text \<open>Lines 308 to 333.\<close>

definition finish_cycle ::
  "cycle_env \<Rightarrow> real list list \<Rightarrow> real list \<Rightarrow> string list \<Rightarrow> knob_dict \<Rightarrow> frozen
     \<Rightarrow> selection \<Rightarrow> string list \<Rightarrow> bool \<Rightarrow> py_error + cycle_result" where
  "finish_cycle env X_all y_all current_knobs full_knob_dict frozen_values sel new_knobs updated =
     (if updated then
        (case np_argmin y_all of
           Inl e \<Rightarrow> Inl e
         | Inr best_idx \<Rightarrow>
             (case restrict_dict full_knob_dict current_knobs of
                Inl e \<Rightarrow> Inl e
              | Inr normalizer \<Rightarrow>
                  if length X_all \<le> best_idx then Inl IndexError
                  else
                    (case get_combined_config normalizer full_knob_dict frozen_values
                            (X_all ! best_idx) of
                       Inl e \<Rightarrow> Inl e
                     | Inr best_cfg \<Rightarrow>
                         (case freeze_dropped current_knobs new_knobs best_cfg frozen_values of
                            Inl e \<Rightarrow> Inl e
                          | Inr frozen' \<Rightarrow>
                              (case restrict_dict full_knob_dict new_knobs of
                                 Inl e \<Rightarrow> Inl e
                               | Inr _ \<Rightarrow>
                                   (case load_intermediate_data env new_knobs of
                                      (new_x0, new_y0) \<Rightarrow>
                                        Inr \<lparr>res_knobs = new_knobs,
                                             updated_num =
                                               int (card (set new_knobs - set current_knobs)),
                                             res_x0 = new_x0, res_y0 = new_y0,
                                             res_frozen = frozen',
                                             res_bandit = sel_bandit sel,
                                             res_selector = sel_selector sel\<rparr>))))))
      else
        Inr \<lparr>res_knobs = current_knobs, res_updated_num = 0, res_x0 = X_all, res_y0 = y_all,
             res_frozen = frozen_values, res_bandit = sel_bandit sel,
             res_selector = sel_selector sel\<rparr>)"

subsection \<open>feature\_selection\_cycle\<close>

text \<open>
  Line 291 prints the local variable \<open>min_features_to_select\<close>; while it is unbound that is
  an \<open>UnboundLocalError\<close>, a \<open>NameError\<close>.  The result is \<open>None\<close> when \<open>update_tuned_knobs\<close>
  does not return.
\<close>

definition feature_selection_cycle ::
  "cycle_env \<Rightarrow> real list list \<Rightarrow> real list \<Rightarrow> string list \<Rightarrow> knob_dict \<Rightarrow> frozen \<Rightarrow> flags
     \<Rightarrow> incremental_support_mask option \<Rightarrow> int \<Rightarrow> bandit option \<Rightarrow> int option
     \<Rightarrow> (py_error + cycle_result) option" where
  "feature_selection_cycle env X_all y_all current_knobs full_knob_dict frozen_values flags
       selector random_flag b n_calls =
     (case select_features env X_all y_all current_knobs flags selector b n_calls of
        Inl e \<Rightarrow> Some (Inl e)
      | Inr sel \<Rightarrow>
          (case min_features_to_select sel of
             None \<Rightarrow> Some (Inl (UnboundLocalError ''min_features_to_select''))
           | Some _ \<Rightarrow>
               (case flags of
                  (basic, low, se, incremental, bandit_flag, ts, lrt, super_low, pure_incremental) \<Rightarrow>
                    (case update_tuned_knobs (shuffle_rng env) current_knobs full_knob_dict
                            (sel_mask sel) frozen_values
                            \<lparr>is_random = random_flag, is_incremental = incremental, is_SE = se,
                             is_bandit = bandit_flag, is_TS = ts, is_LRT = lrt,
                             is_pure_incremental = pure_incremental,
                             bandit_choice = sel_choice sel\<rparr> of
                       None \<Rightarrow> None
                     | Some (Inl e) \<Rightarrow> Some (Inl e)
                     | Some (Inr (new_knobs, updated)) \<Rightarrow>
                         Some (finish_cycle env X_all y_all current_knobs full_knob_dict
                                 frozen_values sel new_knobs updated)))))"

section \<open>Drivers/Normalizer.py in double precision\<close>

text \<open>
  The quotient of line 75 and the product and the sum of line 41 are Python floats, that is
  IEEE 754 binary64 numbers.  A double is a real number here; \<open>round_to_double\<close> is rounding to
  the nearest double, ties to the even significand: \<open>binade x\<close> is the exponent of \<open>x\<close> (not
  below that of the subnormal numbers) and \<open>ulp x\<close> the distance between the doubles around
  \<open>x\<close>.  \<open>py_float\<close> is an operation whose exact result is \<open>x\<close>: the true division of two
  integers and the conversion of an integer to a float are correctly rounded and raise
  \<open>OverflowError\<close> beyond the largest double; a product or a sum that overflows is infinite,
  and \<open>round\<close> of an infinite float raises \<open>OverflowError\<close> as well.
\<close>

definition binade :: "real \<Rightarrow> int" where
  "binade x = max \<lfloor>log 2 \<bar>x\<bar>\<rfloor> (- 1022)"

definition ulp :: "real \<Rightarrow> real" where
  "ulp x = 2 powr of_int (binade x - 52)"

definition round_to_double :: "real \<Rightarrow> real" where
  "round_to_double x = (if x = 0 then 0 else of_int (py_round (x / ulp x)) * ulp x)"

definition py_float :: "real \<Rightarrow> py_error + real" where
  "py_float x =
     (if \<bar>round_to_double x\<bar> < 2 ^ 1024 then Inr (round_to_double x) else Inl OverflowError)"

text \<open>Line 75, \<open>norm_val = (real_value - min_val) / (max_val - min_val)\<close>, in doubles.\<close>

fun norm_value_double :: "knob_spec \<Rightarrow> pyval \<Rightarrow> py_error + real" where
  "norm_value_double (knob_type, min_val, max_val, default_val) real_value =
     (if knob_type = ''integer'' then
        (if max_val = min_val then Inl ValueError
         else (case (real_value, min_val, max_val) of
                 (IntV v, IntV lo, IntV hi) \<Rightarrow> py_float (of_int (v - lo) / of_int (hi - lo))
               | _ \<Rightarrow> Inl TypeError))
      else if knob_type = ''boolean'' then
        (if real_value = min_val then Inr 0
         else if real_value = max_val then Inr 1
         else Inl ValueError)
      else Inl NotImplementedError)"

text \<open>
  Lines 41 to 47 in doubles: \<open>max_val - min_val\<close> is converted to a float and multiplied by
  \<open>norm_val\<close>, \<open>min_val\<close> is converted and added, the sum is rounded to an integer and clamped.
\<close>

fun denorm_value_double :: "knob_spec \<Rightarrow> real \<Rightarrow> py_error + pyval" where
  "denorm_value_double (knob_type, min_val, max_val, default_val) norm_val =
     (if knob_type = ''integer'' then
        (case (min_val, max_val) of
           (IntV lo, IntV hi) \<Rightarrow>
             (case py_float (of_int (hi - lo)) of
                Inl e \<Rightarrow> Inl e
              | Inr width \<Rightarrow>
                  (case py_float (norm_val * width) of
                     Inl e \<Rightarrow> Inl e
                   | Inr scaled \<Rightarrow>
                       (case py_float (of_int lo) of
                          Inl e \<Rightarrow> Inl e
                        | Inr base \<Rightarrow>
                            (case py_float (base + scaled) of
                               Inl e \<Rightarrow> Inl e
                             | Inr float_value \<Rightarrow>
                                 (let real_value = py_round float_value;
                                      real_value = (if hi \<le> real_value then hi else real_value);
                                      real_value = (if real_value \<le> lo then lo else real_value)
                                  in Inr (IntV real_value))))))
         | _ \<Rightarrow> Inl TypeError)
      else if knob_type = ''boolean'' then
        Inr (if norm_val < 1 / 2 then min_val else max_val)
      else Inl NotImplementedError)"

fun denormalize_loop_double ::
  "knob_dict \<Rightarrow> (string \<times> real) list \<Rightarrow> config \<Rightarrow> py_error + config" where
  "denormalize_loop_double kd [] config_dict = Inr config_dict"
| "denormalize_loop_double kd ((knob, norm_val) # rest) config_dict =
     (case map_of kd knob of
        None \<Rightarrow> Inl KeyError
      | Some spec \<Rightarrow>
          (case denorm_value_double spec norm_val of
             Inl e \<Rightarrow> Inl e
           | Inr real_value \<Rightarrow>
               denormalize_loop_double kd rest (config_dict(knob \<mapsto> real_value))))"

definition denormalize_double :: "knob_dict \<Rightarrow> real list \<Rightarrow> py_error + config" where
  "denormalize_double kd normalized_values =
     (if length normalized_values \<noteq> length (knob_names kd) then Inl ValueError
      else denormalize_loop_double kd (zip (knob_names kd) normalized_values) Map.empty)"

fun normalize_loop_double :: "knob_dict \<Rightarrow> string list \<Rightarrow> config \<Rightarrow> py_error + real list" where
  "normalize_loop_double kd [] config = Inr []"
| "normalize_loop_double kd (knob # rest) config =
     (case config knob of
        None \<Rightarrow> Inl ValueError
      | Some real_value \<Rightarrow>
          (case map_of kd knob of
             None \<Rightarrow> Inl KeyError
           | Some spec \<Rightarrow>
               (case norm_value_double spec real_value of
                  Inl e \<Rightarrow> Inl e
                | Inr norm_val \<Rightarrow>
                    (case normalize_loop_double kd rest config of
                       Inl e \<Rightarrow> Inl e
                     | Inr normalized_values \<Rightarrow> Inr (norm_val # normalized_values)))))"

definition normalize_double :: "knob_dict \<Rightarrow> config \<Rightarrow> py_error + real list" where
  "normalize_double kd config = normalize_loop_double kd (knob_names kd) config"

section \<open>Predicates used to state the properties\<close>

text \<open>
  The legal value domain of a knob, within the reach of double precision: an integer knob with
  \<open>min < max\<close>, bounds between \<open>-2^50\<close> and \<open>2^50\<close> and a width of at most \<open>2^50\<close> holds an
  integer of \<open>[min, max]\<close>; a boolean knob holds its \<open>min\<close> or its \<open>max\<close>.  A configuration is
  legal for a dictionary when it gives every knob a value of its domain.
\<close>

definition in_domain :: "knob_spec \<Rightarrow> pyval \<Rightarrow> bool" where
  "in_domain spec real_value =
     (case spec of
        (knob_type, min_val, max_val, default_val) \<Rightarrow>
          if knob_type = ''integer'' then
            (case (real_value, min_val, max_val) of
               (IntV v, IntV lo, IntV hi) \<Rightarrow>
                 lo < hi \<and> lo \<le> v \<and> v \<le> hi
                 \<and> - (2 ^ 50) \<le> lo \<and> hi \<le> 2 ^ 50 \<and> hi - lo \<le> 2 ^ 50
             | _ \<Rightarrow> False)
          else knob_type = ''boolean'' \<and> (real_value = min_val \<or> real_value = max_val))"

definition legal_config :: "knob_dict \<Rightarrow> config \<Rightarrow> bool" where
  "legal_config kd config =
     list_all (\<lambda>(k, spec). case config k of None \<Rightarrow> False | Some v \<Rightarrow> in_domain spec v) kd"




text \<open>
  The reward of the likelihood-ratio bandit as the specification words it: the improvement
  ratio is \<open>(cur_perf - best_perf) / best_perf\<close>, defined as 1 when \<open>best_perf\<close> is 0.
\<close>

definition spec_lrt_reward :: "real \<Rightarrow> real \<Rightarrow> int \<Rightarrow> real \<Rightarrow> real" where
  "spec_lrt_reward cur_perf best_perf n_calls threshold =
     (let improvement_ratio = (if best_perf = 0 then 1 else (cur_perf - best_perf) / best_perf);
          improvement_per_step = improvement_ratio / of_int n_calls
      in if threshold < improvement_per_step then 1 else 0)"

text \<open>The keys of the full dictionary that are neither tuned nor frozen, in dictionary order.\<close>

definition unused_keys :: "string list \<Rightarrow> knob_dict \<Rightarrow> frozen \<Rightarrow> string list" where
  "unused_keys current full_knob_dict frozen_values =
     filter (\<lambda>k. k \<notin> set current \<union> set (map fst frozen_values)) (knob_names full_knob_dict)"

section \<open>Verified properties\<close>

subsection \<open>Normalizer: the round trip in double precision\<close>

lemma py_round_of_int: "py_round (of_int v) = v"
  by (simp add: py_round_def Let_def)

lemma py_round_near:
  assumes "\<bar>y - of_int v\<bar> < 1 / 2"
  shows "py_round y = v"
proof (cases "of_int v \<le> y")
  case True
  with assms have f: "\<lfloor>y\<rfloor> = v" by (intro floor_unique) auto
  with assms True show ?thesis by (simp add: py_round_def Let_def)
next
  case False
  with assms have f: "\<lfloor>y\<rfloor> = v - 1" by (intro floor_unique) auto
  with assms False show ?thesis by (simp add: py_round_def Let_def)
qed

lemma py_round_error: "\<bar>of_int (py_round z) - z\<bar> \<le> 1 / 2"
proof -
  have "of_int \<lfloor>z\<rfloor> \<le> z" and "z < of_int \<lfloor>z\<rfloor> + 1" by linarith+
  then show ?thesis by (auto simp: py_round_def Let_def)
qed

lemma ulp_pos: "0 < ulp y"
  by (simp add: ulp_def)

lemma binade_eq:
  assumes "2 powr of_int k \<le> \<bar>y\<bar>" and "\<bar>y\<bar> < 2 powr of_int (k + 1)" and "- 1022 \<le> k"
  shows "binade y = k"
proof -
  have "0 < (2::real) powr of_int k" by simp
  with assms(1) have pos: "0 < \<bar>y\<bar>" by linarith
  from assms(1,2) have "\<lfloor>log 2 \<bar>y\<bar>\<rfloor> = k"
    using floor_log_eq_powr_iff[OF pos, of 2 k] by simp
  with assms(3) show ?thesis by (simp add: binade_def)
qed

lemma round_to_double_error:
  "\<bar>round_to_double y - y\<bar> \<le> \<bar>y\<bar> / 2 ^ 53 + 2 powr (- 1074)"
proof (cases "y = 0")
  case True
  then show ?thesis by (simp add: round_to_double_def)
next
  case False
  let ?q = "ulp y"
  have q: "0 < ?q" by (rule ulp_pos)
  have "round_to_double y - y = (of_int (py_round (y / ?q)) - y / ?q) * ?q"
    using False q by (simp add: round_to_double_def field_simps)
  then have "\<bar>round_to_double y - y\<bar> = \<bar>of_int (py_round (y / ?q)) - y / ?q\<bar> * ?q"
    using q by (simp add: abs_mult)
  also have "\<dots> \<le> (1 / 2) * ?q"
    using py_round_error[of "y / ?q"] q by (intro mult_right_mono) auto
  finally have half: "\<bar>round_to_double y - y\<bar> \<le> ?q / 2" by simp
  have "?q / 2 \<le> \<bar>y\<bar> / 2 ^ 53 + 2 powr (- 1074)"
  proof (cases "- 1022 \<le> \<lfloor>log 2 \<bar>y\<bar>\<rfloor>")
    case True
    let ?e = "\<lfloor>log 2 \<bar>y\<bar>\<rfloor>"
    from False have pos: "0 < \<bar>y\<bar>" by simp
    have "2 powr of_int ?e \<le> \<bar>y\<bar>"
      using floor_log_eq_powr_iff[OF pos, of 2 ?e] by simp
    moreover have "?q = 2 powr of_int ?e * 2 powr (- 52)"
      using True by (simp add: ulp_def binade_def powr_add[symmetric])
    moreover have "(2::real) powr (- 52) = 1 / 2 ^ 52"
    proof -
      have "(2::real) powr (- 52) = 1 / 2 powr 52" by (rule powr_minus_divide)
      also have "(2::real) powr 52 = 2 ^ 52" by simp
      finally show ?thesis .
    qed
    ultimately have "?q \<le> \<bar>y\<bar> / 2 ^ 52" by (simp add: field_simps)
    then have "?q / 2 \<le> \<bar>y\<bar> / 2 ^ 53" by simp
    moreover have "0 \<le> (2::real) powr (- 1074)" by simp
    ultimately show ?thesis by linarith
  next
    case False
    then have "?q = 2 powr (- 1074)" by (simp add: ulp_def binade_def)
    moreover have "0 \<le> \<bar>y\<bar> / 2 ^ 53" by simp
    moreover have "0 \<le> (2::real) powr (- 1074)" by simp
    ultimately show ?thesis by linarith
  qed
  with half show ?thesis by linarith
qed

lemma tiny_bound: "(2::real) powr (- 1074) \<le> 1 / 2 ^ 60"
proof -
  have "(2::real) powr (- 1074) \<le> 2 powr (- 60)" by (intro powr_mono) auto
  also have "\<dots> = 1 / 2 powr 60" by (rule powr_minus_divide)
  also have "(2::real) powr 60 = 2 ^ 60" by simp
  finally show ?thesis .
qed

lemma round_to_double_int:
  assumes "\<bar>n\<bar> \<le> 2 ^ 50"
  shows "round_to_double (of_int n) = of_int n"
proof (cases "n = 0")
  case True
  then show ?thesis by (simp add: round_to_double_def)
next
  case False
  let ?y = "of_int n :: real"
  let ?e = "\<lfloor>log 2 \<bar>?y\<bar>\<rfloor>"
  from False have one: "1 \<le> \<bar>?y\<bar>" by (simp flip: of_int_abs)
  then have pos: "0 < \<bar>?y\<bar>" by linarith
  from assms have up: "\<bar>?y\<bar> \<le> 2 ^ 50" by (simp flip: of_int_abs)
  have "log 2 1 \<le> log 2 \<bar>?y\<bar>" using one by (intro log_mono) auto
  then have e0: "0 \<le> ?e" by simp
  have "log 2 \<bar>?y\<bar> \<le> log 2 (2 ^ 50)" using up pos by (intro log_mono) auto
  also have "\<dots> = real (50::nat)" by (rule log_pow_cancel) simp_all
  finally have "log 2 \<bar>?y\<bar> \<le> 50" by simp
  then have e50: "?e \<le> 50" by (simp add: floor_le_iff)
  define m where "m = nat (52 - ?e)"
  have b: "binade ?y = ?e" using e0 by (simp add: binade_def)
  have "ulp ?y = 2 powr (- real m)"
    using e50 by (simp add: ulp_def b m_def)
  also have "\<dots> = 1 / 2 powr real m" by (rule powr_minus_divide)
  also have "(2::real) powr real m = 2 ^ m" by (simp add: powr_realpow)
  finally have q: "ulp ?y = 1 / 2 ^ m" .
  have "?y / ulp ?y = of_int (n * 2 ^ m)" by (simp add: q)
  then have "py_round (?y / ulp ?y) = n * 2 ^ m" by (simp only: py_round_of_int)
  with False show ?thesis by (simp add: round_to_double_def q)
qed

lemma py_float_int:
  assumes "\<bar>n\<bar> \<le> 2 ^ 50"
  shows "py_float (of_int n) = Inr (of_int n)"
proof -
  from assms have "\<bar>of_int n :: real\<bar> \<le> 2 ^ 50" by (simp flip: of_int_abs)
  then have "\<bar>of_int n :: real\<bar> < 2 ^ 1024" by simp
  with round_to_double_int[OF assms] show ?thesis by (simp add: py_float_def)
qed

lemma py_float_small:
  assumes "\<bar>y\<bar> \<le> 2 ^ 51"
  shows "py_float y = Inr (round_to_double y)"
    and "\<bar>round_to_double y - y\<bar> \<le> 1 / 2 ^ 2 + 1 / 2 ^ 60"
proof -
  have "\<bar>round_to_double y - y\<bar> \<le> \<bar>y\<bar> / 2 ^ 53 + 2 powr (- 1074)"
    by (rule round_to_double_error)
  moreover from assms have "\<bar>y\<bar> / 2 ^ 53 \<le> 1 / 2 ^ 2" by simp
  ultimately show e: "\<bar>round_to_double y - y\<bar> \<le> 1 / 2 ^ 2 + 1 / 2 ^ 60"
    using tiny_bound by linarith
  have "(1::real) / 2 ^ 2 + 1 / 2 ^ 60 \<le> 1" by simp
  with e assms have "\<bar>round_to_double y\<bar> \<le> 2 ^ 51 + 1" by linarith
  then have "\<bar>round_to_double y\<bar> < 2 ^ 1024" by simp
  then show "py_float y = Inr (round_to_double y)" by (simp add: py_float_def)
qed

lemma double_roundtrip_error:
  fixes A W L :: real
  assumes "0 \<le> A" and "A \<le> W" and "1 \<le> W" and "W \<le> 2 ^ 50" and "\<bar>L + A\<bar> \<le> 2 ^ 50"
  defines "x \<equiv> round_to_double (A / W)"
  defines "scaled \<equiv> round_to_double (x * W)"
  defines "s \<equiv> round_to_double (L + scaled)"
  shows "\<bar>A / W\<bar> \<le> 2 ^ 51" and "\<bar>x * W\<bar> \<le> 2 ^ 51" and "\<bar>L + scaled\<bar> \<le> 2 ^ 51"
    and "\<bar>s - (L + A)\<bar> < 1 / 2"
proof -
  define t :: real where "t = 2 powr (- 1074)"
  define c :: real where "c = 1 / 2 ^ 3 + 1 / 2 ^ 10"
  define M :: real where "M = 2 ^ 50"
  define y where "y = x * W"
  define z where "z = L + scaled"
  have t: "t \<le> 1 / 2 ^ 60" unfolding t_def by (rule tiny_bound)
  have c1: "c \<le> 1" and c3: "3 * c < 1 / 2" by (simp_all add: c_def)
  have M: "1 \<le> M" by (simp add: M_def)
  let ?q = "A / W"
  from assms(1-3) have q0: "0 \<le> ?q" and q1: "?q \<le> 1" by simp_all
  then show "\<bar>?q\<bar> \<le> 2 ^ 51" by simp
  have "\<bar>x - ?q\<bar> \<le> \<bar>?q\<bar> / 2 ^ 53 + t"
    unfolding x_def t_def by (rule round_to_double_error)
  moreover from q0 q1 have "\<bar>?q\<bar> / 2 ^ 53 \<le> 1 / 2 ^ 53" by simp
  ultimately have e1: "\<bar>x - ?q\<bar> \<le> 1 / 2 ^ 53 + 1 / 2 ^ 60" using t by linarith
  have "y - A = (x - ?q) * W" using assms(3) by (simp add: y_def field_simps)
  then have "\<bar>y - A\<bar> = \<bar>x - ?q\<bar> * W" using assms(3) by (simp add: abs_mult)
  also have "\<dots> \<le> (1 / 2 ^ 53 + 1 / 2 ^ 60) * 2 ^ 50"
    using e1 assms(3,4) by (intro mult_mono) auto
  also have "\<dots> = c" by (simp add: c_def)
  finally have e2: "\<bar>y - A\<bar> \<le> c" .
  from assms(1,2,4) have A: "\<bar>A\<bar> \<le> M" by (simp add: M_def)
  from A e2 c1 have y: "\<bar>y\<bar> \<le> M + 1" by linarith
  then show "\<bar>x * W\<bar> \<le> 2 ^ 51" by (simp add: y_def M_def)
  have "\<bar>scaled - y\<bar> \<le> \<bar>y\<bar> / 2 ^ 53 + t"
    unfolding scaled_def y_def t_def by (rule round_to_double_error)
  moreover from y have "\<bar>y\<bar> / 2 ^ 53 \<le> (M + 1) / 2 ^ 53" by (simp add: divide_right_mono)
  moreover have "(M + 1) / 2 ^ 53 + 1 / 2 ^ 60 \<le> c" by (simp add: M_def c_def)
  ultimately have e3: "\<bar>scaled - y\<bar> \<le> c" using t by linarith
  from e2 e3 have e4: "\<bar>scaled - A\<bar> \<le> 2 * c" by linarith
  from assms(5) have "\<bar>L + A\<bar> \<le> M" by (simp add: M_def)
  with e4 c1 have z: "\<bar>z\<bar> \<le> M + 2" unfolding z_def by linarith
  then show "\<bar>L + scaled\<bar> \<le> 2 ^ 51" by (simp add: z_def M_def)
  have "\<bar>s - z\<bar> \<le> \<bar>z\<bar> / 2 ^ 53 + t"
    unfolding s_def z_def t_def by (rule round_to_double_error)
  moreover from z have "\<bar>z\<bar> / 2 ^ 53 \<le> (M + 2) / 2 ^ 53" by (simp add: divide_right_mono)
  moreover have "(M + 2) / 2 ^ 53 + 1 / 2 ^ 60 \<le> c" by (simp add: M_def c_def)
  ultimately have e5: "\<bar>s - z\<bar> \<le> c" using t by linarith
  from e4 e5 c3 show "\<bar>s - (L + A)\<bar> < 1 / 2" unfolding z_def by linarith
qed

lemma double_roundtrip_integer:
  assumes "lo < hi" and "lo \<le> v" and "v \<le> hi"
    and "- (2 ^ 50) \<le> lo" and "hi \<le> 2 ^ 50" and "hi - lo \<le> 2 ^ 50"
  shows "\<exists>x. norm_value_double (''integer'', IntV lo, IntV hi, d) (IntV v) = Inr x
             \<and> denorm_value_double (''integer'', IntV lo, IntV hi, d) x = Inr (IntV v)"
proof -
  let ?A = "of_int (v - lo) :: real"
  let ?W = "of_int (hi - lo) :: real"
  let ?L = "of_int lo :: real"
  let ?x = "round_to_double (?A / ?W)"
  let ?scaled = "round_to_double (?x * ?W)"
  let ?s = "round_to_double (?L + ?scaled)"
  from assms have A0: "0 \<le> ?A" and AW: "?A \<le> ?W" and W1: "1 \<le> ?W" by simp_all
  from assms(6) have W50: "?W \<le> 2 ^ 50"
    by (metis of_int_le_iff of_int_numeral of_int_power)
  from assms have "\<bar>v\<bar> \<le> 2 ^ 50" by simp
  then have "\<bar>of_int v :: real\<bar> \<le> 2 ^ 50" by (simp flip: of_int_abs)
  then have LA: "\<bar>?L + ?A\<bar> \<le> 2 ^ 50" by simp
  note err = double_roundtrip_error[OF A0 AW W1 W50 LA]
  from assms have lo50: "\<bar>lo\<bar> \<le> 2 ^ 50" and w50: "\<bar>hi - lo\<bar> \<le> 2 ^ 50" by simp_all
  have n: "norm_value_double (''integer'', IntV lo, IntV hi, d) (IntV v) = Inr ?x"
    using assms(1) py_float_small(1)[OF err(1)] by simp
  have "?s - (?L + ?A) = ?s - of_int v" by simp
  with err(4) have "\<bar>?s - of_int v\<bar> < 1 / 2" by simp
  then have r: "py_round ?s = v" by (rule py_round_near)
  have "denorm_value_double (''integer'', IntV lo, IntV hi, d) ?x = Inr (IntV v)"
    using py_float_int[OF w50] py_float_small(1)[OF err(2)] py_float_int[OF lo50]
      py_float_small(1)[OF err(3)] r assms(2,3)
    by (simp add: Let_def)
  with n show ?thesis by blast
qed

lemma roundtrip_value_double:
  assumes "in_domain spec rv"
  shows "\<exists>x. norm_value_double spec rv = Inr x \<and> denorm_value_double spec x = Inr rv"
proof -
  obtain knob_type min_val max_val default_val
    where spec: "spec = (knob_type, min_val, max_val, default_val)" by (cases spec)
  show ?thesis
  proof (cases "knob_type = ''integer''")
    case True
    with assms spec obtain v lo hi where
      vs: "rv = IntV v" "min_val = IntV lo" "max_val = IntV hi"
      by (cases rv; cases min_val; cases max_val) (simp_all add: in_domain_def)
    with assms spec True have "lo < hi" "lo \<le> v" "v \<le> hi"
      "- (2 ^ 50) \<le> lo" "hi \<le> 2 ^ 50" "hi - lo \<le> 2 ^ 50"
      by (simp_all add: in_domain_def)
    from double_roundtrip_integer[OF this, of default_val] spec True vs show ?thesis by simp
  next
    case False
    with assms spec have b: "knob_type = ''boolean''" and "rv = min_val \<or> rv = max_val"
      by (simp_all add: in_domain_def)
    then consider "rv = min_val" | "rv \<noteq> min_val" "rv = max_val" by blast
    then show ?thesis
    proof cases
      case 1
      with spec b show ?thesis by simp
    next
      case 2
      with spec b show ?thesis by simp
    qed
  qed
qed

lemma roundtrip_loop_double:
  assumes "\<forall>k\<in>set ks. \<exists>spec rv. map_of kd k = Some spec \<and> config k = Some rv \<and> in_domain spec rv"
    and "distinct ks"
  shows "\<exists>vec cfg'. normalize_loop_double kd ks config = Inr vec \<and> length vec = length ks
           \<and> denormalize_loop_double kd (zip ks vec) cfg0 = Inr cfg'
           \<and> (\<forall>k. k \<notin> set ks \<longrightarrow> cfg' k = cfg0 k)
           \<and> (\<forall>k\<in>set ks. cfg' k = config k)"
  using assms
proof (induction ks arbitrary: cfg0)
  case Nil
  then show ?case by simp
next
  case (Cons knob rest)
  from Cons.prems(1) obtain spec rv where
    spec: "map_of kd knob = Some spec" and rv: "config knob = Some rv" and dom: "in_domain spec rv"
    by auto
  from roundtrip_value_double[OF dom] obtain x where
    x: "norm_value_double spec rv = Inr x" and dx: "denorm_value_double spec x = Inr rv"
    by blast
  from Cons.prems have "\<forall>k\<in>set rest. \<exists>spec rv. map_of kd k = Some spec \<and> config k = Some rv
      \<and> in_domain spec rv" and "distinct rest" by auto
  from Cons.IH[OF this, of "cfg0(knob \<mapsto> rv)"] obtain xs cfg' where
    xs: "normalize_loop_double kd rest config = Inr xs" and len: "length xs = length rest"
    and run: "denormalize_loop_double kd (zip rest xs) (cfg0(knob \<mapsto> rv)) = Inr cfg'"
    and keep: "\<forall>k. k \<notin> set rest \<longrightarrow> cfg' k = (cfg0(knob \<mapsto> rv)) k"
    and same: "\<forall>k\<in>set rest. cfg' k = config k"
    by blast
  have "normalize_loop_double kd (knob # rest) config = Inr (x # xs)"
    using rv spec x xs by simp
  moreover have "length (x # xs) = length (knob # rest)" using len by simp
  moreover have "denormalize_loop_double kd (zip (knob # rest) (x # xs)) cfg0 = Inr cfg'"
    using spec dx run by simp
  moreover have "\<forall>k. k \<notin> set (knob # rest) \<longrightarrow> cfg' k = cfg0 k" using keep by simp
  moreover have "\<forall>k\<in>set (knob # rest). cfg' k = config k"
    using keep same rv Cons.prems(2) by auto
  ultimately show ?case by blast
qed

text \<open>
  C1, amended.  In double precision, for every knob dictionary with distinct names and every
  configuration that gives each knob a value of its legal domain (for an integer knob with
  \<open>min < max\<close>, \<open>-2^50 \<le> min\<close>, \<open>max \<le> 2^50\<close> and \<open>max - min \<le> 2^50\<close> an integer \<open>v\<close> with
  \<open>min \<le> v \<le> max\<close>; for a boolean knob its \<open>min\<close> or its \<open>max\<close>), \<open>normalize\<close> returns a vector,
  \<open>denormalize\<close> accepts that vector, and the configuration it returns has, for every knob,
  exactly the value the round trip started from: the three rounding errors of the quotient,
  the product and the sum stay below one half, so rounding to the nearest integer recovers \<open>v\<close>.
\<close>

theorem normalize_denormalize_roundtrip:
  assumes "distinct (knob_names kd)"
    and "legal_config kd config"
  shows "\<exists>vec cfg'. normalize_double kd config = Inr vec \<and> denormalize_double kd vec = Inr cfg'
           \<and> (\<forall>k\<in>set (knob_names kd). cfg' k = config k)"
proof -
  have dom: "\<exists>spec rv. map_of kd k = Some spec \<and> config k = Some rv \<and> in_domain spec rv"
    if "k \<in> set (knob_names kd)" for k
  proof -
    from that obtain spec where m: "(k, spec) \<in> set kd" by (auto simp: knob_names_def)
    with assms(2) have "case config k of None \<Rightarrow> False | Some v \<Rightarrow> in_domain spec v"
      by (auto simp: legal_config_def list_all_iff)
    then obtain rv where "config k = Some rv" "in_domain spec rv"
      by (cases "config k") simp_all
    moreover from m assms(1) have "map_of kd k = Some spec" by (simp add: knob_names_def)
    ultimately show ?thesis by blast
  qed
  then have "\<forall>k\<in>set (knob_names kd).
      \<exists>spec rv. map_of kd k = Some spec \<and> config k = Some rv \<and> in_domain spec rv" by blast
  from roundtrip_loop_double[OF this assms(1), of Map.empty] obtain vec cfg' where
    "normalize_loop_double kd (knob_names kd) config = Inr vec"
    "length vec = length (knob_names kd)"
    "denormalize_loop_double kd (zip (knob_names kd) vec) Map.empty = Inr cfg'"
    "\<forall>k\<in>set (knob_names kd). cfg' k = config k"
    by blast
  then show ?thesis by (auto simp: normalize_double_def denormalize_double_def)
qed

text \<open>
  The scenario of the specification: \<open>A = 80\<close> in \<open>[0, 100]\<close> and \<open>B = "OFF"\<close> survive the round
  trip.
\<close>

theorem normalize_denormalize_roundtrip_witness:
  "\<exists>vec cfg'. normalize_double [(''A'', ''integer'', IntV 0, IntV 100, IntV 50),
                                (''B'', ''boolean'', StrV ''OFF'', StrV ''ON'', StrV ''OFF'')]
                 [''A'' \<mapsto> IntV 80, ''B'' \<mapsto> StrV ''OFF''] = Inr vec
         \<and> denormalize_double [(''A'', ''integer'', IntV 0, IntV 100, IntV 50),
                                 (''B'', ''boolean'', StrV ''OFF'', StrV ''ON'', StrV ''OFF'')] vec
             = Inr cfg'
         \<and> cfg' ''A'' = Some (IntV 80) \<and> cfg' ''B'' = Some (StrV ''OFF'')"
proof -
  let ?kd = "[(''A'', ''integer'', IntV 0, IntV 100, IntV 50),
              (''B'', ''boolean'', StrV ''OFF'', StrV ''ON'', StrV ''OFF'')]"
  let ?config = "[''A'' \<mapsto> IntV 80, ''B'' \<mapsto> StrV ''OFF'']"
  have d: "distinct (knob_names ?kd)" by (simp add: knob_names_def)
  have l: "legal_config ?kd ?config" by (simp add: legal_config_def in_domain_def)
  from normalize_denormalize_roundtrip[OF d l] obtain vec cfg' where
    n: "normalize_double ?kd ?config = Inr vec"
    and run: "denormalize_double ?kd vec = Inr cfg'"
    and same: "\<forall>k\<in>set (knob_names ?kd). cfg' k = ?config k"
    by blast
  from same have "cfg' ''A'' = Some (IntV 80)" and "cfg' ''B'' = Some (StrV ''OFF'')"
    by (simp_all add: knob_names_def)
  with n run show ?thesis by blast
qed

lemma round_to_double_eval:
  assumes "2 powr of_int k \<le> \<bar>y\<bar>" and "\<bar>y\<bar> < 2 powr of_int (k + 1)" and "- 1022 \<le> k"
  shows "round_to_double y
           = of_int (py_round (y / 2 powr of_int (k - 52))) * 2 powr of_int (k - 52)"
proof -
  have "0 < (2::real) powr of_int k" by simp
  with assms(1) have "y \<noteq> 0" by auto
  with binade_eq[OF assms] show ?thesis by (simp add: round_to_double_def ulp_def)
qed

lemma round_to_double_quotient: "round_to_double (9007199254740993 / 18446744073709551615) = 4503599627370497 / 2 ^ 63"
proof -
  have "round_to_double (9007199254740993 / 18446744073709551615)
          = of_int (py_round (9007199254740993 / 18446744073709551615 / 2 powr of_int (- 11 - 52)))
              * 2 powr of_int (- 11 - 52)"
    by (rule round_to_double_eval) (simp_all add: powr_minus_divide)
  also have "(2::real) powr of_int (- 11 - 52) = 1 / 2 ^ 63" by (simp add: powr_minus_divide)
  also have "py_round (9007199254740993 / 18446744073709551615 / (1 / 2 ^ 63)) = 4503599627370497"
    by (simp add: py_round_def Let_def)
  finally show ?thesis by simp
qed

lemma round_to_double_width: "round_to_double 18446744073709551615 = 18446744073709551616"
proof -
  have "round_to_double 18446744073709551615
          = of_int (py_round (18446744073709551615 / 2 powr of_int (63 - 52))) * 2 powr of_int (63 - 52)"
    by (rule round_to_double_eval) simp_all
  also have "(2::real) powr of_int (63 - 52) = 2 ^ 11" by simp
  also have "py_round (18446744073709551615 / 2 ^ 11) = 9007199254740992"
    by (simp add: py_round_def Let_def)
  finally show ?thesis by simp
qed

lemma round_to_double_scaled: "round_to_double 9007199254740994 = 9007199254740994"
proof -
  have "round_to_double 9007199254740994
          = of_int (py_round (9007199254740994 / 2 powr of_int (53 - 52))) * 2 powr of_int (53 - 52)"
    by (rule round_to_double_eval) simp_all
  also have "(2::real) powr of_int (53 - 52) = 2" by simp
  also have "py_round (9007199254740994 / 2) = 4503599627370497"
    by (simp add: py_round_def Let_def)
  finally show ?thesis by simp
qed

lemma norm_value_double_integer:
  "hi \<noteq> lo \<Longrightarrow>
     norm_value_double (''integer'', IntV lo, IntV hi, d) (IntV v)
       = py_float (of_int (v - lo) / of_int (hi - lo))"
  by simp

lemma denorm_value_double_integer:
  assumes "py_float (of_int (hi - lo)) = Inr width"
    and "py_float (x * width) = Inr scaled"
    and "py_float (of_int lo) = Inr base"
    and "py_float (base + scaled) = Inr float_value"
    and "py_round float_value < hi" and "lo < py_round float_value"
  shows "denorm_value_double (''integer'', IntV lo, IntV hi, d) x = Inr (IntV (py_round float_value))"
  using assms by (simp add: Let_def)

text \<open>
  C1 as stated fails in double precision.  For the knob \<open>["integer", [0, 2^64 - 1, 0]]\<close> and
  the value \<open>2^53 + 1\<close> of its range the quotient rounds to \<open>(2^52 + 1) / 2^63\<close>, the width
  \<open>2^64 - 1\<close> converts to \<open>2^64\<close>, and the round trip returns \<open>2^53 + 2\<close>.
\<close>

theorem double_roundtrip_counterexample:
  "(case normalize_double [(''k'', ''integer'', IntV 0, IntV 18446744073709551615, IntV 0)]
           [''k'' \<mapsto> IntV 9007199254740993] of
      Inl e \<Rightarrow> None
    | Inr vec \<Rightarrow>
        (case denormalize_double [(''k'', ''integer'', IntV 0, IntV 18446744073709551615, IntV 0)]
                vec of
           Inl e \<Rightarrow> None
         | Inr config_dict \<Rightarrow> config_dict ''k''))
   = Some (IntV 9007199254740994)"
proof -
  let ?spec = "(''integer'', IntV 0, IntV 18446744073709551615, IntV 0)"
  let ?x = "4503599627370497 / 9223372036854775808 :: real"
  have f1: "py_float (9007199254740993 / 18446744073709551615) = Inr ?x"
    unfolding py_float_def round_to_double_quotient by simp
  have f2: "py_float 18446744073709551615 = Inr 18446744073709551616"
    unfolding py_float_def round_to_double_width by simp
  have f3: "py_float 9007199254740994 = Inr 9007199254740994"
    unfolding py_float_def round_to_double_scaled by simp
  have f0: "py_float 0 = Inr 0" by (simp add: py_float_def round_to_double_def)
  have "norm_value_double ?spec (IntV 9007199254740993)
          = py_float (of_int (9007199254740993 - 0) / of_int (18446744073709551615 - 0))"
    by (rule norm_value_double_integer) simp
  also have "(of_int (9007199254740993 - 0) :: real) / of_int (18446744073709551615 - 0)
               = 9007199254740993 / 18446744073709551615"
    by (simp only: diff_zero of_int_numeral)
  finally have nv: "norm_value_double ?spec (IntV 9007199254740993) = Inr ?x"
    using f1 by simp
  have w: "py_float (of_int (18446744073709551615 - 0)) = Inr 18446744073709551616"
    using f2 by (simp only: diff_zero of_int_numeral)
  have "?x * 18446744073709551616 = 9007199254740994" by simp
  with f3 have sc: "py_float (?x * 18446744073709551616) = Inr 9007199254740994"
    by (simp only:)
  have b: "py_float (of_int 0) = Inr 0" using f0 by (simp only: of_int_0)
  have su: "py_float (0 + 9007199254740994) = Inr 9007199254740994"
    using f3 by (simp only: add_0)
  have r: "py_round 9007199254740994 = 9007199254740994"
    by (simp add: py_round_def Let_def)
  have dv: "denorm_value_double ?spec ?x = Inr (IntV 9007199254740994)"
    using denorm_value_double_integer[OF w sc b su, of "IntV 0"] r by simp
  have n: "normalize_double [(''k'', ?spec)] [''k'' \<mapsto> IntV 9007199254740993] = Inr [?x]"
    unfolding normalize_double_def knob_names_def
    by (simp add: nv del: norm_value_double.simps)
  have d: "denormalize_double [(''k'', ?spec)] [?x] = Inr [''k'' \<mapsto> IntV 9007199254740994]"
    unfolding denormalize_double_def knob_names_def
    by (simp add: dv del: denorm_value_double.simps)
  show ?thesis by (simp add: n d)
qed

subsection \<open>Normalizer: what is rejected\<close>










subsection \<open>decide\_calls: conflicting policy flags\<close>

lemma decide_calls_exits_iff:
  "isl (decide_calls x0 updated_knobs_num len_knobs
          (basic, low, se, incremental, bandit, ts, lrt, super_low, pure_incremental)
          remaining_iters)
     \<longleftrightarrow> 2 < basic + incremental + se + bandit"
  by (simp add: decide_calls_def Let_def)

text \<open>
  C2.  With two of the exclusive flags set, here \<open>is_basic\<close> and \<open>is_incremental\<close>,
  \<open>decide_calls\<close> does not abort: the guard compares the sum of the four flags with 2, so on a
  cold start with 5 knobs and 100 iterations left it returns 10 initial points and 25 calls.
\<close>

theorem decide_calls_two_flags_returns:
  "decide_calls (None :: real list list option) 0 5 (1, 0, 0, 1, 0, 0, 0, 0, 0) 100 = Inr (10, 25)"
  by (simp add: decide_calls_def)

subsection \<open>update\_tuned\_knobs: the changed flag\<close>

text \<open>
  C5.  The current set is \<open>[a, b]\<close>, the dictionary holds no other knob, and the mask drops
  \<open>b\<close>.  The returned list \<open>[a]\<close> differs from the current set, yet the flag is \<open>False\<close>: line
  107 overwrites the flag that line 57 set for the shrink.
\<close>

theorem update_tuned_knobs_shrink_unreported:
  "update_tuned_knobs [] [''a'', ''b'']
     [(''a'', ''integer'', IntV 0, IntV 10, IntV 5), (''b'', ''integer'', IntV 0, IntV 10, IntV 5)]
     [True, False] [] default_policy
   = Some (Inr ([''a''], False))"
  by (simp add: update_tuned_knobs_def default_policy_def element_to_tune_def count_true_def
      knob_names_def Let_def)

subsection \<open>TwoActionLRT.reward\<close>

text \<open>
  C6 as stated fails when \<open>best_perf\<close> is 0: the code divides by 1 there, so the ratio is
  \<open>cur_perf\<close>, not 1.  With \<open>cur_perf = 0\<close> the code's reward is 0 where the stated rule gives 1.
\<close>

theorem lrt_reward_counterexample:
  "lrt_reward 0 0 1 (1 / 1000) = Inr 0 \<and> spec_lrt_reward 0 0 1 (1 / 1000) = 1"
  by (simp add: lrt_reward_def spec_lrt_reward_def)

text \<open>
  C6, amended.  For \<open>n_calls \<ge> 1\<close> the reward is 1 if \<open>improvement_ratio / n_calls\<close> exceeds the
  threshold and 0 otherwise, where \<open>improvement_ratio\<close> is \<open>(cur_perf - best_perf) / best_perf\<close>
  when \<open>best_perf\<close> is not 0 and \<open>cur_perf\<close> when it is.
\<close>

theorem lrt_reward_binary:
  assumes "1 \<le> n_calls"
  shows "lrt_reward cur_perf best_perf n_calls threshold =
           Inr (if threshold
                     < (if best_perf = 0 then cur_perf else (cur_perf - best_perf) / best_perf)
                       / of_int n_calls
                then 1 else 0)"
  using assms by (simp add: lrt_reward_def)

theorem lrt_reward_binary_witness:
  "(1 :: int) \<le> 10 \<and> lrt_reward 103 100 10 (1 / 1000) = Inr 1 \<and> lrt_reward 5 0 10 (1 / 1000) = Inr 1
     \<and> lrt_reward 100 100 10 (1 / 1000) = Inr 0"
  using lrt_reward_binary[of 10 103 100 "1 / 1000"] lrt_reward_binary[of 10 5 0 "1 / 1000"]
    lrt_reward_binary[of 10 100 100 "1 / 1000"]
  by simp

subsection \<open>The bandits: update without a pending decision\<close>

text \<open>
  C8.  For each of the three bandits and every reward, \<open>update\<close> with no pending decision
  returns without an error and leaves the whole state, accumulators included, as it was.
\<close>

theorem update_without_select_is_noop:
  "(lrt_last_action l = None \<longrightarrow> lrt_update l reward = Inr l)
   \<and> (ts_last_action t = None \<longrightarrow> ts_update t reward = Inr t)
   \<and> (cts_last_context c = None \<or> cts_last_action c = None \<longrightarrow> cts_update c reward = Inr c)"
  by (auto simp: lrt_update_def ts_update_def cts_update_def split: option.splits)

theorem update_without_select_is_noop_witness:
  "lrt_update two_action_lrt_init (7 / 10) = Inr two_action_lrt_init
   \<and> ts_update (two_action_ts_init (1 / 10)) (7 / 10) = Inr (two_action_ts_init (1 / 10))
   \<and> cts_update (contextual_ts_init (1 / 10)) (7 / 10) = Inr (contextual_ts_init (1 / 10))"
  using update_without_select_is_noop[of two_action_lrt_init "7 / 10" "two_action_ts_init (1 / 10)"
      "contextual_ts_init (1 / 10)"]
  by (simp add: two_action_lrt_init_def two_action_ts_init_def contextual_ts_init_def)

subsection \<open>update\_tuned\_knobs: the default policy\<close>

lemma count_true_all: "count_true ms = int (length ms) \<longleftrightarrow> list_all (\<lambda>b. b) ms"
proof (induction ms)
  case Nil
  then show ?case by (simp add: count_true_def)
next
  case (Cons m ms)
  show ?case
  proof (cases m)
    case True
    with Cons show ?thesis by (simp add: count_true_def)
  next
    case False
    have "length (filter (\<lambda>b. b) ms) \<le> length ms" by (rule length_filter_le)
    then have "int (length (filter (\<lambda>b. b) ms)) \<noteq> 1 + int (length ms)" by linarith
    with False show ?thesis by (simp add: count_true_def)
  qed
qed

lemma kept_length:
  "length xs = length ms \<Longrightarrow> int (length (filter snd (zip xs ms))) = count_true ms"
  by (induction xs ms rule: list_induct2) (simp_all add: count_true_def)

lemma kept_all:
  "length xs = length ms \<Longrightarrow> list_all (\<lambda>b. b) ms \<Longrightarrow> map fst (filter snd (zip xs ms)) = xs"
  by (induction xs ms rule: list_induct2) simp_all

lemma floor_three_halves_ge: "int n \<le> \<lfloor>real n * (3 / 2)\<rfloor>"
  by (simp add: le_floor_iff)

text \<open>
  C4.  Under the default policy (no flag set, deterministic top-up), with one mask entry per
  tuned knob and enough unused knobs left in the full dictionary, \<open>update_tuned_knobs\<close> returns
  a list of \<open>floor(current_size * 1.5)\<close> knobs when the mask is all True and of
  \<open>count(True) + 1\<close> knobs otherwise.
\<close>

theorem default_policy_next_size:
  assumes "length selection_mask = length current"
    and "(if list_all (\<lambda>b. b) selection_mask
          then \<lfloor>real (length current) * (3 / 2)\<rfloor> - int (length current) else 1)
         \<le> int (length (unused_keys current full_knob_dict frozen_values))"
  shows "\<exists>new_list updated.
           update_tuned_knobs g current full_knob_dict selection_mask frozen_values default_policy
             = Some (Inr (new_list, updated))
           \<and> int (length new_list)
               = (if list_all (\<lambda>b. b) selection_mask
                  then \<lfloor>real (length current) * (3 / 2)\<rfloor>
                  else count_true selection_mask + 1)"
proof (cases "list_all (\<lambda>b. b) selection_mask")
  case True
  let ?target = "\<lfloor>real (length current) * (3 / 2)\<rfloor>"
  let ?needed = "?target - int (length current)"
  from True have ct: "count_true selection_mask = int (length selection_mask)"
    by (simp add: count_true_all)
  have tgt: "element_to_tune default_policy (int (length current)) selection_mask = ?target"
    using ct by (simp add: element_to_tune_def default_policy_def)
  have kept: "map fst (filter snd (zip current selection_mask)) = current"
    using kept_all[OF assms(1)[symmetric] True] .
  from assms(2) True have enough: "?needed \<le> int (length (unused_keys current full_knob_dict frozen_values))"
    by simp
  show ?thesis
  proof (cases "0 < ?needed")
    case pos: True
    have "update_tuned_knobs g current full_knob_dict selection_mask frozen_values default_policy
            = Some (Inr (current @ take (nat ?needed) (unused_keys current full_knob_dict frozen_values),
                         take (nat ?needed) (unused_keys current full_knob_dict frozen_values) \<noteq> []))"
      using pos assms(1) tgt kept
      by (simp add: update_tuned_knobs_def Let_def unused_keys_def default_policy_def)
    moreover have "int (length (current @ take (nat ?needed)
                      (unused_keys current full_knob_dict frozen_values))) = ?target"
      using pos enough by simp
    ultimately show ?thesis using True by simp
  next
    case nonpos: False
    with floor_three_halves_ge[of "length current"] have eq: "?target = int (length current)"
      by linarith
    have "update_tuned_knobs g current full_knob_dict selection_mask frozen_values default_policy
            = Some (Inr (current, count_true selection_mask < int (length current)))"
      using nonpos assms(1) tgt kept
      by (simp add: update_tuned_knobs_def Let_def default_policy_def)
    then show ?thesis using True eq by simp
  qed
next
  case False
  let ?kept = "map fst (filter snd (zip current selection_mask))"
  let ?avail = "unused_keys current full_knob_dict frozen_values"
  from False have ct: "count_true selection_mask \<noteq> int (length selection_mask)"
    by (simp add: count_true_all)
  have tgt: "element_to_tune default_policy (int (length current)) selection_mask
               = count_true selection_mask + 1"
    using ct by (simp add: element_to_tune_def default_policy_def)
  have len: "int (length ?kept) = count_true selection_mask"
    using kept_length[OF assms(1)[symmetric]] by simp
  from assms(2) False have enough: "1 \<le> length ?avail" by simp
  have "update_tuned_knobs g current full_knob_dict selection_mask frozen_values default_policy
          = Some (Inr (?kept @ take 1 ?avail, take 1 ?avail \<noteq> []))"
    using assms(1) tgt len
    by (simp add: update_tuned_knobs_def Let_def unused_keys_def default_policy_def)
  moreover have "int (length (?kept @ take 1 ?avail)) = count_true selection_mask + 1"
    using len enough by simp
  ultimately show ?thesis using False by simp
qed

text \<open>
  The two examples of the specification, on a dictionary of 16 knobs of which the first 10 are
  tuned: an all-True mask yields 15 knobs, a mask with 4 True yields 5.
\<close>

theorem default_policy_next_size_witness:
  "(\<exists>new_list updated.
      update_tuned_knobs [] [''a'', ''b'', ''c'', ''d'', ''e'', ''f'', ''g'', ''h'', ''i'', ''j'']
        [(''a'', ''integer'', IntV 0, IntV 10, IntV 5),
         (''b'', ''integer'', IntV 0, IntV 10, IntV 5),
         (''c'', ''integer'', IntV 0, IntV 10, IntV 5),
         (''d'', ''integer'', IntV 0, IntV 10, IntV 5),
         (''e'', ''integer'', IntV 0, IntV 10, IntV 5),
         (''f'', ''integer'', IntV 0, IntV 10, IntV 5),
         (''g'', ''integer'', IntV 0, IntV 10, IntV 5),
         (''h'', ''integer'', IntV 0, IntV 10, IntV 5),
         (''i'', ''integer'', IntV 0, IntV 10, IntV 5),
         (''j'', ''integer'', IntV 0, IntV 10, IntV 5),
         (''k'', ''integer'', IntV 0, IntV 10, IntV 5),
         (''l'', ''integer'', IntV 0, IntV 10, IntV 5),
         (''m'', ''integer'', IntV 0, IntV 10, IntV 5),
         (''n'', ''integer'', IntV 0, IntV 10, IntV 5),
         (''o'', ''integer'', IntV 0, IntV 10, IntV 5),
         (''p'', ''integer'', IntV 0, IntV 10, IntV 5)]
        [True, True, True, True, True, True, True, True, True, True] [] default_policy
        = Some (Inr (new_list, updated)) \<and> int (length new_list) = 15)
   \<and> (\<exists>new_list updated.
      update_tuned_knobs [] [''a'', ''b'', ''c'', ''d'', ''e'', ''f'', ''g'', ''h'', ''i'', ''j'']
        [(''a'', ''integer'', IntV 0, IntV 10, IntV 5),
         (''b'', ''integer'', IntV 0, IntV 10, IntV 5),
         (''c'', ''integer'', IntV 0, IntV 10, IntV 5),
         (''d'', ''integer'', IntV 0, IntV 10, IntV 5),
         (''e'', ''integer'', IntV 0, IntV 10, IntV 5),
         (''f'', ''integer'', IntV 0, IntV 10, IntV 5),
         (''g'', ''integer'', IntV 0, IntV 10, IntV 5),
         (''h'', ''integer'', IntV 0, IntV 10, IntV 5),
         (''i'', ''integer'', IntV 0, IntV 10, IntV 5),
         (''j'', ''integer'', IntV 0, IntV 10, IntV 5),
         (''k'', ''integer'', IntV 0, IntV 10, IntV 5),
         (''l'', ''integer'', IntV 0, IntV 10, IntV 5),
         (''m'', ''integer'', IntV 0, IntV 10, IntV 5),
         (''n'', ''integer'', IntV 0, IntV 10, IntV 5),
         (''o'', ''integer'', IntV 0, IntV 10, IntV 5),
         (''p'', ''integer'', IntV 0, IntV 10, IntV 5)]
        [True, False, True, False, False, True, False, False, True, False] [] default_policy
        = Some (Inr (new_list, updated)) \<and> int (length new_list) = 5)"
proof -
  let ?cur = "[''a'', ''b'', ''c'', ''d'', ''e'', ''f'', ''g'', ''h'', ''i'', ''j'']"
  let ?kd = "[(''a'', ''integer'', IntV 0, IntV 10, IntV 5),
         (''b'', ''integer'', IntV 0, IntV 10, IntV 5),
         (''c'', ''integer'', IntV 0, IntV 10, IntV 5),
         (''d'', ''integer'', IntV 0, IntV 10, IntV 5),
         (''e'', ''integer'', IntV 0, IntV 10, IntV 5),
         (''f'', ''integer'', IntV 0, IntV 10, IntV 5),
         (''g'', ''integer'', IntV 0, IntV 10, IntV 5),
         (''h'', ''integer'', IntV 0, IntV 10, IntV 5),
         (''i'', ''integer'', IntV 0, IntV 10, IntV 5),
         (''j'', ''integer'', IntV 0, IntV 10, IntV 5),
         (''k'', ''integer'', IntV 0, IntV 10, IntV 5),
         (''l'', ''integer'', IntV 0, IntV 10, IntV 5),
         (''m'', ''integer'', IntV 0, IntV 10, IntV 5),
         (''n'', ''integer'', IntV 0, IntV 10, IntV 5),
         (''o'', ''integer'', IntV 0, IntV 10, IntV 5),
         (''p'', ''integer'', IntV 0, IntV 10, IntV 5)]"
  have grow: "\<exists>new_list updated.
      update_tuned_knobs [] ?cur ?kd
        [True, True, True, True, True, True, True, True, True, True] [] default_policy
        = Some (Inr (new_list, updated)) \<and> int (length new_list) = 15"
    using default_policy_next_size[of "[True, True, True, True, True, True, True, True, True, True]"
        ?cur ?kd "[]" "[]"]
    by (simp add: unused_keys_def knob_names_def)
  have shrink: "\<exists>new_list updated.
      update_tuned_knobs [] ?cur ?kd
        [True, False, True, False, False, True, False, False, True, False] [] default_policy
        = Some (Inr (new_list, updated)) \<and> int (length new_list) = 5"
    using default_policy_next_size[of
        "[True, False, True, False, False, True, False, False, True, False]" ?cur ?kd "[]" "[]"]
    by (simp add: unused_keys_def knob_names_def count_true_def)
  from grow shrink show ?thesis by blast
qed

subsection \<open>feature\_selection\_cycle: the unbound local variable\<close>

lemma select_features_unbound:
  assumes "select_features env X_all y_all current_knobs
             (basic, low, se, incremental, bandit_flag, 0, 0, super_low, 0) selector b n_calls = Inr sel"
  shows "min_features_to_select sel = None"
  using assms
  by (auto simp: select_features_def Let_def split: if_splits sum.splits option.splits prod.splits)

text \<open>
  With \<open>is_LRT\<close> set the variable is bound and the cycle returns: here it keeps \<open>a\<close>, drops \<open>b\<close>
  and freezes it at the best observed value.
\<close>

lemma feature_selection_cycle_lrt_returns:
  "map_option (map_sum id (\<lambda>r. (res_knobs r, res_updated_num r, res_frozen r, res_x0 r)))
     (feature_selection_cycle
        \<lparr>rfecv_support = (\<lambda>m n X y. Inr [True, False]), ttest_ind = (\<lambda>a b. Some (1 / 100)),
        load_y_data = [100, 120, 130], load_intermediate_data = (\<lambda>ks. ([[1 / 2]], [- 130])),
        draws = \<lparr>uniform_draw = 1 / 2, random_action = 1, theta0 = 1 / 5, theta1 = 4 / 5\<rparr>,
        shuffle_rng = []\<rparr>
        [[1 / 5, 3 / 10], [1 / 2, 7 / 10]] [- 100, - 130] [''a'', ''b'']
        [(''a'', ''integer'', IntV 0, IntV 10, IntV 5), (''b'', ''integer'', IntV 0, IntV 10, IntV 5),
        (''c'', ''integer'', IntV 0, IntV 10, IntV 5)]
        [] (0, 0, 0, 0, 0, 0, 1, 0, 0) None 0 (Some (TwoActionLRT two_action_lrt_init)) (Some 1))
   = Some (Inr ([''a''], 0, [(''b'', IntV 7)], [[1 / 2]]))"
  by (simp add: feature_selection_cycle_def select_features_def attribute_reward_def
      slice_from_def slice_to_def py_max_def bandit_reward_def lrt_reward_def bandit_update_def
      lrt_update_def two_action_lrt_init_def bandit_select_def lrt_select_def lrt_success_rate_def
      update_tuned_knobs_def element_to_tune_def count_true_def knob_names_def finish_cycle_def
      np_argmin_def restrict_dict_def get_combined_config_def denormalize_def py_round_def Let_def)

text \<open>
  C10 as stated fails: the error is not always the \<open>NameError\<close>.  With \<open>is_SE\<close> and
  \<open>is_incremental\<close> both set \<open>main\<close> builds no selector and \<open>decide_calls\<close> does not abort, so
  line 209 calls \<open>None\<close> and the cycle ends with a \<open>TypeError\<close> before it reaches the print.
\<close>

theorem feature_selection_cycle_counterexample:
  "feature_selection_cycle
     \<lparr>rfecv_support = (\<lambda>m n X y. Inr [True, False]), ttest_ind = (\<lambda>a b. Some (1 / 100)),
        load_y_data = [100, 120, 130], load_intermediate_data = (\<lambda>ks. ([[1 / 2]], [- 130])),
        draws = \<lparr>uniform_draw = 1 / 2, random_action = 1, theta0 = 1 / 5, theta1 = 4 / 5\<rparr>,
        shuffle_rng = []\<rparr>
     [[1 / 5, 3 / 10], [1 / 2, 7 / 10]] [- 100, - 130] [''a'', ''b'']
     [(''a'', ''integer'', IntV 0, IntV 10, IntV 5), (''b'', ''integer'', IntV 0, IntV 10, IntV 5),
        (''c'', ''integer'', IntV 0, IntV 10, IntV 5)]
     [] (0, 0, 1, 1, 0, 0, 0, 0, 0) None 0 None (Some 1)
   = Some (Inl TypeError)"
  by (simp add: feature_selection_cycle_def select_features_def)

text \<open>
  C10, amended.  When none of \<open>is_TS\<close>, \<open>is_LRT\<close> and \<open>is_pure_incremental\<close> is set, whatever
  the other flags and inputs are, \<open>feature_selection_cycle\<close> ends with an unhandled error and
  never returns a knob set: whenever the selection branch itself completes, that error is the
  \<open>UnboundLocalError\<close> (a \<open>NameError\<close>) for \<open>min_features_to_select\<close> raised by the print of
  line 291, and otherwise it is the error the selection branch raised.
\<close>

theorem feature_selection_cycle_never_returns:
  "\<exists>e. feature_selection_cycle env X_all y_all current_knobs full_knob_dict frozen_values
          (basic, low, se, incremental, bandit_flag, 0, 0, super_low, 0) selector random_flag b n_calls
        = Some (Inl e)
      \<and> (\<forall>sel. select_features env X_all y_all current_knobs
                  (basic, low, se, incremental, bandit_flag, 0, 0, super_low, 0) selector b n_calls
                  = Inr sel
                \<longrightarrow> e = UnboundLocalError ''min_features_to_select'')"
proof (cases "select_features env X_all y_all current_knobs
                (basic, low, se, incremental, bandit_flag, 0, 0, super_low, 0) selector b n_calls")
  case (Inl e)
  then show ?thesis by (simp add: feature_selection_cycle_def)
next
  case (Inr sel)
  from select_features_unbound[OF Inr] have "min_features_to_select sel = None" .
  with Inr show ?thesis by (simp add: feature_selection_cycle_def)
qed

text \<open>
  The default policy and the contextual bandit policy, on the inputs of the example above: both
  stop at the print.
\<close>

theorem feature_selection_cycle_never_returns_witness:
  "feature_selection_cycle
     \<lparr>rfecv_support = (\<lambda>m n X y. Inr [True, False]), ttest_ind = (\<lambda>a b. Some (1 / 100)),
        load_y_data = [100, 120, 130], load_intermediate_data = (\<lambda>ks. ([[1 / 2]], [- 130])),
        draws = \<lparr>uniform_draw = 1 / 2, random_action = 1, theta0 = 1 / 5, theta1 = 4 / 5\<rparr>,
        shuffle_rng = []\<rparr>
     [[1 / 5, 3 / 10], [1 / 2, 7 / 10]] [- 100, - 130] [''a'', ''b'']
     [(''a'', ''integer'', IntV 0, IntV 10, IntV 5), (''b'', ''integer'', IntV 0, IntV 10, IntV 5),
        (''c'', ''integer'', IntV 0, IntV 10, IntV 5)]
     [] (0, 0, 0, 0, 0, 0, 0, 0, 0) None 0 None (Some 1)
   = Some (Inl (UnboundLocalError ''min_features_to_select''))
   \<and> feature_selection_cycle
     \<lparr>rfecv_support = (\<lambda>m n X y. Inr [True, False]), ttest_ind = (\<lambda>a b. Some (1 / 100)),
        load_y_data = [100, 120, 130], load_intermediate_data = (\<lambda>ks. ([[1 / 2]], [- 130])),
        draws = \<lparr>uniform_draw = 1 / 2, random_action = 1, theta0 = 1 / 5, theta1 = 4 / 5\<rparr>,
        shuffle_rng = []\<rparr>
     [[1 / 5, 3 / 10], [1 / 2, 7 / 10]] [- 100, - 130] [''a'', ''b'']
     [(''a'', ''integer'', IntV 0, IntV 10, IntV 5), (''b'', ''integer'', IntV 0, IntV 10, IntV 5),
        (''c'', ''integer'', IntV 0, IntV 10, IntV 5)]
     [] (0, 0, 0, 0, 1, 0, 0, 0, 0) None 0 (Some (ContextualTS (contextual_ts_init (1 / 10)))) (Some 1)
   = Some (Inl (UnboundLocalError ''min_features_to_select''))"
proof -
  let ?env = "\<lparr>rfecv_support = (\<lambda>m n X y. Inr [True, False]), ttest_ind = (\<lambda>a b. Some (1 / 100)),
        load_y_data = [100, 120, 130], load_intermediate_data = (\<lambda>ks. ([[1 / 2]], [- 130])),
        draws = \<lparr>uniform_draw = 1 / 2, random_action = 1, theta0 = 1 / 5, theta1 = 4 / 5\<rparr>,
        shuffle_rng = []\<rparr>"
  let ?kd = "[(''a'', ''integer'', IntV 0, IntV 10, IntV 5), (''b'', ''integer'', IntV 0, IntV 10, IntV 5),
        (''c'', ''integer'', IntV 0, IntV 10, IntV 5)]"
  let ?X = "[[1 / 5, 3 / 10], [1 / 2, 7 / 10]] :: real list list"
  let ?y = "[- 100, - 130] :: real list"
  let ?b = "Some (ContextualTS (contextual_ts_init (1 / 10)))"
  have s1: "\<exists>sel. select_features ?env ?X ?y [''a'', ''b''] (0, 0, 0, 0, 0, 0, 0, 0, 0) None None (Some 1)
              = Inr sel"
    by (simp add: select_features_def)
  have s2: "\<exists>sel. select_features ?env ?X ?y [''a'', ''b''] (0, 0, 0, 0, 1, 0, 0, 0, 0) None ?b (Some 1)
              = Inr sel"
    by (simp add: select_features_def attribute_reward_def slice_from_def slice_to_def py_max_def
        bandit_reward_def ts_reward_def bandit_update_def cts_update_def contextual_ts_init_def
        bandit_select_context_def cts_select_def Let_def)
  from s1 feature_selection_cycle_never_returns[of ?env ?X ?y "[''a'', ''b'']" ?kd "[]" 0 0 0 0 0 0
      None 0 None "Some 1"]
  have "feature_selection_cycle ?env ?X ?y [''a'', ''b''] ?kd [] (0, 0, 0, 0, 0, 0, 0, 0, 0) None 0 None
          (Some 1) = Some (Inl (UnboundLocalError ''min_features_to_select''))"
    by auto
  moreover from s2 feature_selection_cycle_never_returns[of ?env ?X ?y "[''a'', ''b'']" ?kd "[]" 0 0 0
      0 1 0 None 0 ?b "Some 1"]
  have "feature_selection_cycle ?env ?X ?y [''a'', ''b''] ?kd [] (0, 0, 0, 0, 1, 0, 0, 0, 0) None 0 ?b
          (Some 1) = Some (Inl (UnboundLocalError ''min_features_to_select''))"
    by auto
  ultimately show ?thesis by blast
qed

subsection \<open>random.sample: size and content of a draw\<close>

lemma pool_remove:
  assumes "j < length pool"
  shows "mset (butlast (pool[j := last pool])) + {#pool ! j#} = mset pool"
proof -
  from assms have ne: "pool \<noteq> []" by auto
  then obtain xs x where pool: "pool = xs @ [x]" by (metis append_butlast_last_id)
  show ?thesis
  proof (cases "j < length xs")
    case True
    then have "butlast (pool[j := last pool]) = xs[j := x]"
      by (simp add: pool list_update_append)
    moreover have "pool ! j = xs ! j" using True by (simp add: pool nth_append)
    moreover have "mset (xs[j := x]) + {#xs ! j#} = mset xs + {#x#}"
      using True by (simp add: mset_update)
    ultimately show ?thesis by (simp add: pool)
  next
    case False
    with assms have j: "j = length xs" by (simp add: pool)
    then show ?thesis by (simp add: pool)
  qed
qed

lemma sample_pool_draw:
  assumes "k \<le> length pool"
  shows "length (fst (sample_pool g pool k)) = k \<and> mset (fst (sample_pool g pool k)) \<subseteq># mset pool"
  using assms
proof (induction k arbitrary: g pool)
  case 0
  then show ?case by simp
next
  case (Suc k)
  obtain j g' where rb: "randbelow g (length pool) = (j, g')" by (cases "randbelow g (length pool)")
  from Suc.prems have pos: "0 < length pool" by (cases pool) simp_all
  have j: "j < length pool"
  proof (cases g)
    case Nil
    with rb pos show ?thesis by auto
  next
    case (Cons r rs)
    with rb pos show ?thesis by auto
  qed
  let ?pool' = "butlast (pool[j := last pool])"
  from Suc.prems have "k \<le> length ?pool'" by simp
  from Suc.IH[OF this, of g'] have
    len: "length (fst (sample_pool g' ?pool' k)) = k"
    and sub: "mset (fst (sample_pool g' ?pool' k)) \<subseteq># mset ?pool'" by auto
  obtain result g'' where sp: "sample_pool g' ?pool' k = (result, g'')"
    by (cases "sample_pool g' ?pool' k")
  from sp rb have res: "fst (sample_pool g pool (Suc k)) = pool ! j # result" by simp
  from sub sp have "mset result + {#pool ! j#} \<subseteq># mset ?pool' + {#pool ! j#}"
    by simp
  with pool_remove[OF j] have "mset (pool ! j # result) \<subseteq># mset pool" by simp
  with res len sp show ?case by simp
qed

lemma random_sample_draw:
  assumes "k \<le> length population"
  shows "\<exists>sampled. fst (random_sample g population k) = Inr sampled
           \<and> length sampled = k \<and> mset sampled \<subseteq># mset population"
proof -
  obtain result g' where sp: "sample_pool g population k = (result, g')"
    by (cases "sample_pool g population k")
  with sample_pool_draw[OF assms, of g] have "length result = k" "mset result \<subseteq># mset population"
    by auto
  with sp assms show ?thesis by (simp add: random_sample_def)
qed

lemma sample_count_bounds:
  assumes "0 < pct" and "pct < 100" and "0 < n"
  shows "1 \<le> sample_count n pct" and "sample_count n pct \<le> int n"
proof -
  show "1 \<le> sample_count n pct" by (simp add: sample_count_def)
  have "int n * pct \<le> int n * 100" using assms by (intro mult_left_mono) auto
  then have "(int n * pct) div 100 \<le> int n" by simp
  with assms(3) show "sample_count n pct \<le> int n" by (simp add: sample_count_def)
qed

subsection \<open>execute\_olap: the sample and the short circuit\<close>

lemma execute_olap_sampling:
  assumes "0 < budget_allocator self" and "budget_allocator self < 100"
    and "parse_queries sql_text \<noteq> []"
    and "fst (random_sample g (parse_queries sql_text)
           (nat (sample_count (length (parse_queries sql_text)) (budget_allocator self)))) = Inr sampled"
  shows "execute_olap env g self sql_text intermediate_csv =
           (let queries = parse_queries sql_text;
                a = (case attrs self of
                       None \<Rightarrow> \<lparr>best_total_time = None, best_olap_times = Map.empty\<rparr>
                     | Some a \<Rightarrow> a);
                sample_total = sample_total_of env sampled;
                logging = (case intermediate_csv of None \<Rightarrow> False | Some f \<Rightarrow> f \<noteq> []);
                rows = (if logging
                        then (if csv_exists env then [] else [Header]) @ [Row ''sample'' sample_total]
                        else []);
                est = estimate a queries sampled sample_total
            in case best_total_time a of
                 None \<Rightarrow> Inr (full_run env self a queries sampled sample_total logging rows)
               | Some b \<Rightarrow>
                   if b \<le> est then
                     Inr \<lparr>returned = est, driver_after = self\<lparr>attrs := Some a\<rparr>,
                          executed_sample = sampled, executed_full = [], csv_rows = rows\<rparr>
                   else Inr (full_run env self a queries sampled sample_total logging rows))"
  using assms by (simp add: execute_olap_def Let_def)

text \<open>
  C7 as stated fails: the count is truncated, not rounded.  A script of 4 statements at a
  budget of 45 percent samples 1 unit, where \<open>max(1, round(4 * 45 / 100))\<close> is 2.
\<close>

theorem sample_count_counterexample:
  "map_sum id (\<lambda>r. length (executed_sample r))
     (execute_olap \<lparr>timer = (\<lambda>i. 1), wall = 7, csv_exists = False\<rparr> [3, 0]
        \<lparr>budget_allocator = 45, attrs = None\<rparr> ''a;b;c;d'' None) = Inr 1
   \<and> max 1 (py_round (4 * 45 / 100)) = 2"
proof (rule conjI)
  show "map_sum id (\<lambda>r. length (executed_sample r))
     (execute_olap \<lparr>timer = (\<lambda>i. 1), wall = 7, csv_exists = False\<rparr> [3, 0]
        \<lparr>budget_allocator = 45, attrs = None\<rparr> ''a;b;c;d'' None) = Inr 1"
    by (simp add: execute_olap_def parse_queries_def script_parts_def py_strip_def py_isspace_def
        py_lower_def startswith_def Let_def random_sample_def sample_count_def full_run_def)
  show "max 1 (py_round (4 * 45 / 100)) = 2"
    by (simp add: py_round_def Let_def)
qed

text \<open>
  C7, amended.  With \<open>0 < budget_percent < 100\<close> and a script of \<open>N \<ge> 1\<close> statement units, the
  units executed before the estimate are a draw without replacement of exactly
  \<open>max(1, floor(N * budget_percent / 100))\<close> of the script's units, and the only other
  statements the call executes are those of the full run, if it takes place.
\<close>

theorem sample_count_floor:
  assumes "0 < budget_allocator self" and "budget_allocator self < 100"
    and "parse_queries sql_text \<noteq> []"
  shows "\<exists>r. execute_olap env g self sql_text intermediate_csv = Inr r
           \<and> int (length (executed_sample r))
               = max 1 ((int (length (parse_queries sql_text)) * budget_allocator self) div 100)
           \<and> mset (executed_sample r) \<subseteq># mset (parse_queries sql_text)
           \<and> (executed_full r = [] \<or> executed_full r = parse_queries sql_text)"
proof -
  let ?queries = "parse_queries sql_text"
  let ?count = "sample_count (length ?queries) (budget_allocator self)"
  from assms(3) have n: "0 < length ?queries" by simp
  from sample_count_bounds[OF assms(1,2) n] have c1: "1 \<le> ?count" and c2: "?count \<le> int (length ?queries)"
    by auto
  then have "nat ?count \<le> length ?queries" by simp
  from random_sample_draw[OF this, of g] obtain sampled where
    rs: "fst (random_sample g ?queries (nat ?count)) = Inr sampled"
    and len: "length sampled = nat ?count" and sub: "mset sampled \<subseteq># mset ?queries"
    by blast
  from len c1 have len': "int (length sampled)
      = max 1 ((int (length ?queries) * budget_allocator self) div 100)"
    by (simp add: sample_count_def)
  note eq = execute_olap_sampling[OF assms rs, of env intermediate_csv]
  let ?a = "case attrs self of
              None \<Rightarrow> \<lparr>best_total_time = None, best_olap_times = Map.empty\<rparr>
            | Some a \<Rightarrow> a"
  show ?thesis
  proof (cases "best_total_time ?a")
    case None
    with eq len' sub show ?thesis by (simp add: Let_def full_run_def)
  next
    case (Some b)
    show ?thesis
    proof (cases "b \<le> estimate ?a ?queries sampled (sample_total_of env sampled)")
      case True
      with eq Some len' sub show ?thesis by (simp add: Let_def)
    next
      case False
      with eq Some len' sub show ?thesis by (simp add: Let_def full_run_def)
    qed
  qed
qed

theorem sample_count_floor_witness:
  "\<exists>r. execute_olap \<lparr>timer = (\<lambda>i. 1), wall = 7, csv_exists = False\<rparr> [3, 0]
          \<lparr>budget_allocator = 45, attrs = None\<rparr> ''a;b;c;d'' None = Inr r
      \<and> int (length (executed_sample r)) = 1
      \<and> mset (executed_sample r) \<subseteq># mset [''a;'', ''b;'', ''c;'', ''d;'']
      \<and> (executed_full r = [] \<or> executed_full r = [''a;'', ''b;'', ''c;'', ''d;''])"
proof -
  have p: "parse_queries ''a;b;c;d'' = [''a;'', ''b;'', ''c;'', ''d;'']"
    by (simp add: parse_queries_def script_parts_def py_strip_def py_isspace_def py_lower_def
        startswith_def Let_def)
  from sample_count_floor[of "\<lparr>budget_allocator = 45, attrs = None\<rparr>" "''a;b;c;d''"
      "\<lparr>timer = (\<lambda>i. 1), wall = 7, csv_exists = False\<rparr>" "[3, 0]" None]
  show ?thesis by (simp add: p)
qed

text \<open>
  C3 as stated fails on a script without statements: the call returns 0 before the attributes
  exist, so no full run takes place and no baseline is established.
\<close>

theorem first_run_counterexample:
  "execute_olap \<lparr>timer = (\<lambda>i. 1), wall = 7, csv_exists = False\<rparr> [] \<lparr>budget_allocator = 50, attrs = None\<rparr> '' ; '' None
     = Inr \<lparr>returned = 0, driver_after = \<lparr>budget_allocator = 50, attrs = None\<rparr>,
            executed_sample = [], executed_full = [], csv_rows = []\<rparr>"
  by (simp add: execute_olap_def parse_queries_def script_parts_def py_strip_def py_isspace_def)

text \<open>
  C3, amended.  For a script with at least one statement unit: with
  \<open>0 < budget_percent < 100\<close>, a prior \<open>best_total_time\<close> and an estimate that is not below it,
  the call returns the estimate, executes the sampled units only and leaves the driver's state
  as it was; and when no prior best exists, the full run executes, its time is returned and
  becomes \<open>best_total_time\<close>, and its per-query times become \<open>best_olap_times\<close>.
\<close>

theorem budget_short_circuit:
  assumes "parse_queries sql_text \<noteq> []"
  shows "(0 < budget_allocator self \<and> budget_allocator self < 100
            \<and> attrs self = Some a \<and> best_total_time a = Some b
            \<and> fst (random_sample g (parse_queries sql_text)
                  (nat (sample_count (length (parse_queries sql_text)) (budget_allocator self))))
                = Inr sampled
            \<and> b \<le> estimate a (parse_queries sql_text) sampled (sample_total_of env sampled)
          \<longrightarrow> (\<exists>r. execute_olap env g self sql_text intermediate_csv = Inr r
                 \<and> returned r = estimate a (parse_queries sql_text) sampled (sample_total_of env sampled)
                 \<and> driver_after r = self
                 \<and> executed_sample r = sampled \<and> executed_full r = []))
       \<and> (attrs self = None \<or> (\<exists>a'. attrs self = Some a' \<and> best_total_time a' = None)
          \<longrightarrow> (\<exists>r a'. execute_olap env g self sql_text intermediate_csv = Inr r
                 \<and> executed_full r = parse_queries sql_text
                 \<and> returned r = py_round_nd (wall env) 2
                 \<and> attrs (driver_after r) = Some a'
                 \<and> best_total_time a' = Some (returned r)
                 \<and> best_olap_times a'
                     = query_times env (length (executed_sample r)) (parse_queries sql_text)))"
proof (intro conjI impI)
  assume h: "0 < budget_allocator self \<and> budget_allocator self < 100
            \<and> attrs self = Some a \<and> best_total_time a = Some b
            \<and> fst (random_sample g (parse_queries sql_text)
                  (nat (sample_count (length (parse_queries sql_text)) (budget_allocator self))))
                = Inr sampled
            \<and> b \<le> estimate a (parse_queries sql_text) sampled (sample_total_of env sampled)"
  then have rs: "fst (random_sample g (parse_queries sql_text)
                  (nat (sample_count (length (parse_queries sql_text)) (budget_allocator self))))
                = Inr sampled" by simp
  from h have p1: "0 < budget_allocator self" and p2: "budget_allocator self < 100" by simp_all
  note eq = execute_olap_sampling[OF p1 p2 assms rs, of env intermediate_csv]
  from h have "self\<lparr>attrs := Some a\<rparr> = self" by simp
  with eq h show "\<exists>r. execute_olap env g self sql_text intermediate_csv = Inr r
                 \<and> returned r = estimate a (parse_queries sql_text) sampled (sample_total_of env sampled)
                 \<and> driver_after r = self
                 \<and> executed_sample r = sampled \<and> executed_full r = []"
    by (simp add: Let_def)
next
  assume h: "attrs self = None \<or> (\<exists>a'. attrs self = Some a' \<and> best_total_time a' = None)"
  let ?queries = "parse_queries sql_text"
  let ?a = "case attrs self of
              None \<Rightarrow> \<lparr>best_total_time = None, best_olap_times = Map.empty\<rparr>
            | Some a \<Rightarrow> a"
  from h have nb: "best_total_time ?a = None" by auto
  let ?goal = "\<exists>r a'. execute_olap env g self sql_text intermediate_csv = Inr r
                 \<and> executed_full r = ?queries
                 \<and> returned r = py_round_nd (wall env) 2
                 \<and> attrs (driver_after r) = Some a'
                 \<and> best_total_time a' = Some (returned r)
                 \<and> best_olap_times a' = query_times env (length (executed_sample r)) ?queries"
  show ?goal
  proof (cases "0 < budget_allocator self \<and> budget_allocator self < 100")
    case True
    then have p1: "0 < budget_allocator self" and p2: "budget_allocator self < 100" by simp_all
    from assms have n: "0 < length ?queries" by simp
    from sample_count_bounds[OF p1 p2 n]
    have "nat (sample_count (length ?queries) (budget_allocator self)) \<le> length ?queries" by simp
    from random_sample_draw[OF this, of g] obtain sampled where
      rs: "fst (random_sample g ?queries
             (nat (sample_count (length ?queries) (budget_allocator self)))) = Inr sampled"
      by blast
    note eq = execute_olap_sampling[OF p1 p2 assms rs, of env intermediate_csv]
    with nb show ?thesis by (simp add: Let_def full_run_def)
  next
    case False
    then consider "budget_allocator self \<le> 0" | "100 \<le> budget_allocator self" by linarith
    then have "execute_olap env g self sql_text intermediate_csv
                       = Inr (full_run env self ?a ?queries [] 0 False [])"
    proof cases
      case 1
      then have "max 0 (min 100 (budget_allocator self)) = 0" by simp
      with assms show ?thesis by (simp add: execute_olap_def Let_def)
    next
      case 2
      then have "max 0 (min 100 (budget_allocator self)) = 100" by simp
      with assms show ?thesis by (simp add: execute_olap_def Let_def)
    qed
    with nb show ?thesis by (simp add: Let_def full_run_def)
  qed
qed

text \<open>
  The example of the specification: with \<open>best_total_time = 100\<close> a sample that took 60 seconds
  where its best was 50 gives the estimate 120, which is returned without a full run; and on a
  fresh driver the full run of 7 seconds becomes the baseline.
\<close>

theorem budget_short_circuit_witness:
  "(\<exists>r. execute_olap \<lparr>timer = (\<lambda>i. 60), wall = 7, csv_exists = False\<rparr> [0]
           \<lparr>budget_allocator = 50,
            attrs = Some \<lparr>best_total_time = Some 100,
                          best_olap_times = [''a;'' \<mapsto> 50, ''b;'' \<mapsto> 50]\<rparr>\<rparr>
           ''a;b'' None = Inr r
       \<and> returned r = 120
       \<and> driver_after r
           = \<lparr>budget_allocator = 50,
              attrs = Some \<lparr>best_total_time = Some 100,
                            best_olap_times = [''a;'' \<mapsto> 50, ''b;'' \<mapsto> 50]\<rparr>\<rparr>
       \<and> executed_sample r = [''a;''] \<and> executed_full r = [])
   \<and> (\<exists>r a'. execute_olap \<lparr>timer = (\<lambda>i. 60), wall = 7, csv_exists = False\<rparr> [0]
           \<lparr>budget_allocator = 50, attrs = None\<rparr> ''a;b'' None = Inr r
       \<and> executed_full r = [''a;'', ''b;'']
       \<and> returned r = 7
       \<and> attrs (driver_after r) = Some a'
       \<and> best_total_time a' = Some 7)"
proof -
  let ?env = "\<lparr>timer = (\<lambda>i. 60), wall = 7, csv_exists = False\<rparr>"
  let ?a = "\<lparr>best_total_time = Some 100, best_olap_times = [''a;'' \<mapsto> 50, ''b;'' \<mapsto> 50]\<rparr>"
  let ?self = "\<lparr>budget_allocator = 50, attrs = Some ?a\<rparr>"
  let ?fresh = "\<lparr>budget_allocator = 50, attrs = (None :: olap_attrs option)\<rparr>"
  have p: "parse_queries ''a;b'' = [''a;'', ''b;'']"
    by (simp add: parse_queries_def script_parts_def py_strip_def py_isspace_def py_lower_def
        startswith_def Let_def)
  have ne: "parse_queries ''a;b'' \<noteq> []" by (simp add: p)
  have rs: "fst (random_sample [0] (parse_queries ''a;b'')
              (nat (sample_count (length (parse_queries ''a;b'')) (budget_allocator ?self))))
            = Inr [''a;'']"
    by (simp add: p random_sample_def sample_count_def)
  have st: "sample_total_of ?env [''a;''] = 60"
    by (simp add: sample_total_of_def dict_values_sum_def query_times_def py_round_nd_def
        py_round_def Let_def)
  have est: "estimate ?a (parse_queries ''a;b'') [''a;''] (sample_total_of ?env [''a;'']) = 120"
    by (simp add: p st estimate_def best_time_sum_def py_round_nd_def py_round_def Let_def)
  have w: "py_round_nd (wall ?env) 2 = 7"
    by (simp add: py_round_nd_def py_round_def Let_def)
  have hyp: "0 < budget_allocator ?self \<and> budget_allocator ?self < 100
            \<and> attrs ?self = Some ?a \<and> best_total_time ?a = Some 100
            \<and> fst (random_sample [0] (parse_queries ''a;b'')
                  (nat (sample_count (length (parse_queries ''a;b'')) (budget_allocator ?self))))
                = Inr [''a;'']
            \<and> 100 \<le> estimate ?a (parse_queries ''a;b'') [''a;''] (sample_total_of ?env [''a;''])"
    using rs est by simp
  from budget_short_circuit[OF ne, THEN conjunct1, THEN mp, OF hyp, of None] est
  have skip: "\<exists>r. execute_olap ?env [0] ?self ''a;b'' None = Inr r
       \<and> returned r = 120 \<and> driver_after r = ?self
       \<and> executed_sample r = [''a;''] \<and> executed_full r = []"
    by simp
  have fresh: "attrs ?fresh = None \<or> (\<exists>a'. attrs ?fresh = Some a' \<and> best_total_time a' = None)"
    by simp
  from budget_short_circuit[OF ne, THEN conjunct2, THEN mp, OF fresh, of ?env "[0]" None] w
  have first: "\<exists>r a'. execute_olap ?env [0] ?fresh ''a;b'' None = Inr r
       \<and> executed_full r = [''a;'', ''b;'']
       \<and> returned r = 7
       \<and> attrs (driver_after r) = Some a'
       \<and> best_total_time a' = Some 7"
    by (simp add: p) metis
  from skip first show ?thesis by blast
qed

end
